theory Spec2Isabelle
  imports Complex_Main
begin

section \<open>Tensors and errors\<close>

text \<open>
  The notebook \<^verbatim>\<open>MLPMixer.ipynb\<close> builds its model from the tensor library's layers
  (\<^verbatim>\<open>nn.Linear\<close>, \<^verbatim>\<open>nn.GELU\<close>, \<^verbatim>\<open>nn.Sequential\<close>) and two tensor operations
  (\<^verbatim>\<open>transpose(1,2)\<close> and \<^verbatim>\<open>+\<close>). A tensor is modelled the way the library stores a
  contiguous one: its shape and its entries in row-major order. Entries are real
  numbers: rounding of floating-point arithmetic is not modelled.

  Every exception the code can raise is a value of \<open>error\<close>; a computation returns
  \<open>error + 'a\<close>, with \<open>Inl\<close> for the exception.
\<close>

datatype error =
    AttributeError string
  | NameError string
  | TypeError
  | SyntaxError
  | IndexError
  | ShapeError
  | ConfigurationError

record tensor =
  shape :: "nat list"
  data :: "real list"

definition wf_tensor :: "tensor \<Rightarrow> bool" where
  "wf_tensor t \<longleftrightarrow> length (data t) = prod_list (shape t)"

definition bindE :: "error + 'a \<Rightarrow> ('a \<Rightarrow> error + 'b) \<Rightarrow> error + 'b" where
  "bindE m f = (case m of Inl e \<Rightarrow> Inl e | Inr v \<Rightarrow> f v)"

text \<open>
  \<open>rows n k xs\<close> are the \<open>k\<close> consecutive rows of length \<open>n\<close> of the flat data \<open>xs\<close>:
  the vectors along the last axis of a tensor whose last axis has size \<open>n\<close> and whose
  other axes have product \<open>k\<close>.
\<close>

definition rows :: "nat \<Rightarrow> nat \<Rightarrow> 'a list \<Rightarrow> 'a list list" where
  "rows n k xs = map (\<lambda>i. take n (drop (i * n) xs)) [0..<k]"

section \<open>The library layers used by the notebook\<close>

subsection \<open>\<^verbatim>\<open>nn.Linear(in_features, out_features)\<close>\<close>

text \<open>
  \<open>weight l j i\<close> is entry \<open>(j, i)\<close> of the weight tensor of shape
  \<open>(out_features, in_features)\<close> and \<open>bias l j\<close> entry \<open>j\<close> of the bias; entries
  outside the shape are never read. The library draws the initial values at random, so
  the constructor of the model takes them as arguments.
\<close>

record Linear =
  in_features :: nat
  out_features :: nat
  weight :: "nat \<Rightarrow> nat \<Rightarrow> real"
  bias :: "nat \<Rightarrow> real"

definition Linear_init :: "nat \<Rightarrow> nat \<Rightarrow> (nat \<Rightarrow> nat \<Rightarrow> real) \<Rightarrow> (nat \<Rightarrow> real) \<Rightarrow> Linear" where
  "Linear_init n_in n_out w b =
     \<lparr>in_features = n_in, out_features = n_out, weight = w, bias = b\<rparr>"

definition Linear_row :: "Linear \<Rightarrow> real list \<Rightarrow> real list" where
  "Linear_row l x =
     map (\<lambda>j. sum_list (map (\<lambda>i. weight l j i * x ! i) [0..<in_features l]) + bias l j)
       [0..<out_features l]"

definition Linear_apply :: "Linear \<Rightarrow> tensor \<Rightarrow> tensor" where
  "Linear_apply l t =
     \<lparr>shape = butlast (shape t) @ [out_features l],
      data = concat (map (Linear_row l)
               (rows (in_features l) (prod_list (butlast (shape t))) (data t)))\<rparr>"

text \<open>
  The layer works along the last axis and raises when the input has no axis or its
  last axis is not \<open>in_features\<close>.
\<close>

definition Linear_forward :: "Linear \<Rightarrow> tensor \<Rightarrow> error + tensor" where
  "Linear_forward l t =
     (if shape t = [] \<or> last (shape t) \<noteq> in_features l then Inl ShapeError
      else Inr (Linear_apply l t))"

subsection \<open>\<^verbatim>\<open>nn.GELU()\<close>\<close>

text \<open>
  The activation is \<open>x * \<Phi> x\<close> with \<open>\<Phi>\<close> the standard normal distribution function,
  \<open>\<Phi> x = (1 + erf (x / sqrt 2)) / 2\<close>; the error function is given by its power series.
\<close>

definition erf :: "real \<Rightarrow> real" where
  "erf x = 2 / sqrt pi * (\<Sum>n. (- 1) ^ n * x ^ (2 * n + 1) / (fact n * real (2 * n + 1)))"

definition GELU :: "real \<Rightarrow> real" where
  "GELU x = x * ((1 + erf (x / sqrt 2)) / 2)"

definition GELU_apply :: "tensor \<Rightarrow> tensor" where
  "GELU_apply t = \<lparr>shape = shape t, data = map GELU (data t)\<rparr>"

subsection \<open>\<^verbatim>\<open>nn.Sequential\<close>\<close>

datatype layer = Linear_layer Linear | GELU_layer

fun layer_forward :: "layer \<Rightarrow> tensor \<Rightarrow> error + tensor" where
  "layer_forward (Linear_layer l) t = Linear_forward l t"
| "layer_forward GELU_layer t = Inr (GELU_apply t)"

fun Sequential_forward :: "layer list \<Rightarrow> tensor \<Rightarrow> error + tensor" where
  "Sequential_forward [] t = Inr t"
| "Sequential_forward (l # ls) t = bindE (layer_forward l t) (Sequential_forward ls)"

section \<open>The MLP block\<close>

text \<open>
  \<^verbatim>\<open>
  class MLPblock(nn.Module):
      def __init__(self, dim_hidden, mlp_out):
          super(MLPblock, self).__init__()
          self.mlp = nn.Sequential(
              nn.Linear(dim_hidden, mlp_out), # fully connected layer
              nn.GELU(), # non-linearity
              nn.Linear(mlp_out, dim_hidden) # fully connected layer
          )
      def forward(self, x):
          return self.mlp(x)
  \<close>
\<close>

record MLP_params =
  fc1_weight :: "nat \<Rightarrow> nat \<Rightarrow> real"
  fc1_bias :: "nat \<Rightarrow> real"
  fc2_weight :: "nat \<Rightarrow> nat \<Rightarrow> real"
  fc2_bias :: "nat \<Rightarrow> real"

record MLPblock =
  mlp :: "layer list"

definition MLPblock_init :: "nat \<Rightarrow> nat \<Rightarrow> MLP_params \<Rightarrow> MLPblock" where
  "MLPblock_init dim_hidden mlp_out p =
     \<lparr>mlp = [Linear_layer (Linear_init dim_hidden mlp_out (fc1_weight p) (fc1_bias p)),
             GELU_layer,
             Linear_layer (Linear_init mlp_out dim_hidden (fc2_weight p) (fc2_bias p))]\<rparr>"

definition MLPblock_forward :: "MLPblock \<Rightarrow> tensor \<Rightarrow> error + tensor" where
  "MLPblock_forward self x = Sequential_forward (mlp self) x"


section \<open>Tensor operations of the Mixer layer\<close>

subsection \<open>\<^verbatim>\<open>out.transpose(1,2)\<close>\<close>

text \<open>
  \<open>block m n xs\<close> is the \<open>n\<close>-th run of \<open>m\<close> consecutive entries of \<open>xs\<close>. For a tensor
  of shape \<open>(b, s, c, ...)\<close> with \<open>m\<close> the product of the axes after the third, the
  sub-tensor at index \<open>[i, j, k]\<close> is block \<open>(i * s + j) * c + k\<close>. Swapping axes 1 and 2
  puts at \<open>[i, j, k]\<close> of the result what the input has at \<open>[i, k, j]\<close>. A tensor with
  fewer than three axes has no axis 2 and the library raises.
\<close>

definition block :: "nat \<Rightarrow> nat \<Rightarrow> 'a list \<Rightarrow> 'a list" where
  "block m n xs = take m (drop (n * m) xs)"

definition swap12 :: "nat \<Rightarrow> nat \<Rightarrow> nat \<Rightarrow> nat \<Rightarrow> 'a list \<Rightarrow> 'a list" where
  "swap12 b s c m xs =
     concat (map (\<lambda>i. concat (map (\<lambda>j. concat (map (\<lambda>k.
       block m ((i * s + k) * c + j) xs) [0..<s])) [0..<c])) [0..<b])"

definition transpose12 :: "tensor \<Rightarrow> error + tensor" where
  "transpose12 t =
     (case shape t of
        b # s # c # rest \<Rightarrow>
          Inr \<lparr>shape = b # c # s # rest, data = swap12 b s c (prod_list rest) (data t)\<rparr>
      | _ \<Rightarrow> Inl IndexError)"

subsection \<open>\<^verbatim>\<open>x + out\<close>\<close>

text \<open>
  Addition of two tensors of one shape is entrywise. For operands of different shapes
  the library broadcasts or raises; the forward pass never adds such operands (its two
  summands always have the shape of \<open>x\<close>, see \<open>MixerLayer_forward_shape\<close>), and the model
  raises there. The sums are sums of real numbers, where the library rounds; what is
  proved below about sums for every input uses only that adding zero changes nothing,
  which rounding keeps.
\<close>

definition tensor_add :: "tensor \<Rightarrow> tensor \<Rightarrow> error + tensor" where
  "tensor_add a b =
     (if shape a = shape b
      then Inr \<lparr>shape = shape a, data = map2 (+) (data a) (data b)\<rparr>
      else Inl ShapeError)"

subsection \<open>The normalisation layer\<close>

text \<open>
  Modelled from the spec: the normalisation layer of the Mixer layer. The source
  constructs it as \<^verbatim>\<open>nn.LinearNorm(dim_hidden)\<close>, a name the library does not have; the
  spec (sections 3 and 4.2) has a normalisation over the channel axis with a per-channel
  scale and shift, which is the library's \<^verbatim>\<open>nn.LayerNorm(dim_hidden)\<close>: every vector
  along the last axis is centred by its mean, divided by the square root of its
  (population) variance plus \<open>eps\<close>, scaled and shifted. \<open>eps\<close> is the library's default.
\<close>

record LayerNorm =
  normalized_shape :: nat
  ln_weight :: "nat \<Rightarrow> real"
  ln_bias :: "nat \<Rightarrow> real"
  eps :: real

definition LayerNorm_init :: "nat \<Rightarrow> (nat \<Rightarrow> real) \<Rightarrow> (nat \<Rightarrow> real) \<Rightarrow> LayerNorm" where
  "LayerNorm_init d g b =
     \<lparr>normalized_shape = d, ln_weight = g, ln_bias = b, eps = 1 / 100000\<rparr>"

definition mean :: "real list \<Rightarrow> real" where
  "mean xs = sum_list xs / real (length xs)"

definition variance :: "real list \<Rightarrow> real" where
  "variance xs = sum_list (map (\<lambda>v. (v - mean xs)\<^sup>2) xs) / real (length xs)"

definition LayerNorm_row :: "LayerNorm \<Rightarrow> real list \<Rightarrow> real list" where
  "LayerNorm_row lnorm xs =
     map (\<lambda>i. (xs ! i - mean xs) / sqrt (variance xs + eps lnorm) * ln_weight lnorm i + ln_bias lnorm i)
       [0..<normalized_shape lnorm]"

definition LayerNorm_apply :: "LayerNorm \<Rightarrow> tensor \<Rightarrow> tensor" where
  "LayerNorm_apply lnorm t =
     \<lparr>shape = shape t,
      data = concat (map (LayerNorm_row lnorm)
               (rows (normalized_shape lnorm) (prod_list (butlast (shape t))) (data t)))\<rparr>"

definition LayerNorm_forward :: "LayerNorm \<Rightarrow> tensor \<Rightarrow> error + tensor" where
  "LayerNorm_forward lnorm t =
     (if shape t = [] \<or> last (shape t) \<noteq> normalized_shape lnorm then Inl ShapeError
      else Inr (LayerNorm_apply lnorm t))"

section \<open>Names and constructors\<close>

text \<open>
  The constructor of the Mixer layer looks two names up when it runs: the attribute
  \<^verbatim>\<open>LinearNorm\<close> of the module bound to \<^verbatim>\<open>nn\<close>, and the global name \<^verbatim>\<open>MLPBlock\<close>. A
  namespace maps names to objects. \<open>torch_nn\<close> holds the names of \<^verbatim>\<open>torch.nn\<close> that the
  notebook uses and the normalisation layer the library does have; \<open>notebook_globals\<close>
  holds the names the notebook binds at top level: its three imports and the two class
  statements that are complete.
\<close>

datatype pyobject =
    torch_module | torchvision_module | nn_module
  | Module_class | Sequential_class | Linear_class | GELU_class | LayerNorm_class
  | MLPblock_class | MixerLayer_class

type_synonym namespace = "string \<Rightarrow> pyobject option"

definition torch_nn :: namespace where
  "torch_nn =
     [''Module'' \<mapsto> Module_class, ''Sequential'' \<mapsto> Sequential_class,
      ''Linear'' \<mapsto> Linear_class, ''GELU'' \<mapsto> GELU_class,
      ''LayerNorm'' \<mapsto> LayerNorm_class]"

definition notebook_globals :: namespace where
  "notebook_globals =
     [''torch'' \<mapsto> torch_module, ''torchvision'' \<mapsto> torchvision_module,
      ''nn'' \<mapsto> nn_module, ''MLPblock'' \<mapsto> MLPblock_class,
      ''MixerLayer'' \<mapsto> MixerLayer_class]"

definition getattr :: "namespace \<Rightarrow> string \<Rightarrow> error + pyobject" where
  "getattr ns name = (case ns name of None \<Rightarrow> Inl (AttributeError name) | Some v \<Rightarrow> Inr v)"

definition global_name :: "namespace \<Rightarrow> string \<Rightarrow> error + pyobject" where
  "global_name ns name = (case ns name of None \<Rightarrow> Inl (NameError name) | Some v \<Rightarrow> Inr v)"

text \<open>
  The sub-layers a Mixer layer holds, and the values their parameters start with (the
  library chooses them; training changes them; the model takes them as arguments, so
  that a layer can have any parameter setting).
\<close>

datatype module = LayerNorm_module LayerNorm | MLPblock_module MLPblock

record init_values =
  norm_weight :: "nat \<Rightarrow> real"
  norm_bias :: "nat \<Rightarrow> real"
  mlp_values :: MLP_params

text \<open>
  Calling a class with positional integer arguments. The two calls that build a
  sub-layer are modelled; any other call is a \<open>TypeError\<close>.
\<close>

fun call :: "pyobject \<Rightarrow> nat list \<Rightarrow> init_values \<Rightarrow> error + module" where
  "call LayerNorm_class [d] v =
     Inr (LayerNorm_module (LayerNorm_init d (norm_weight v) (norm_bias v)))"
| "call MLPblock_class [d, h] v =
     Inr (MLPblock_module (MLPblock_init d h (mlp_values v)))"
| "call _ _ _ = Inl TypeError"

fun module_forward :: "module \<Rightarrow> tensor \<Rightarrow> error + tensor" where
  "module_forward (LayerNorm_module lnorm) t = LayerNorm_forward lnorm t"
| "module_forward (MLPblock_module blk) t = MLPblock_forward blk t"

section \<open>The Mixer layer\<close>

text \<open>
  \<^verbatim>\<open>
  class MixerLayer(nn.Module):
      def __init__(self, patches_num, dim_hidden, dim_tokens, dim_channels):
          super(MixerLayer, self).__init__()
          self.token_ln = nn.LinearNorm(dim_hidden)
          self.token_mix = MLPBlock(dim_hidden, dim_tokens)
          self.channel_ln = nn.LinearNorm(dim_hidden)
          self.channel_mix = MLPBlock(dim_hidden, dim_channels)

      def forward(self,x):
          out = self.token_ln(x)
          out = out.transpose(1,2)
          out = self.token_mix(out)
          out = out.transpose(1,2)
          out = self.channel_ln(x+out)
          out = self.channel_mix(out)

          return x + out
  \<close>
  The constructor takes the namespace of \<^verbatim>\<open>nn\<close> and the global namespace it runs in,
  and performs the four assignments in order; each looks its class up and calls it. The
  call to the base class's constructor sets no attribute the model has and is left out.
\<close>

record MixerLayer =
  token_ln :: module
  token_mix :: module
  channel_ln :: module
  channel_mix :: module

record Mixer_values =
  token_ln_values :: init_values
  token_mix_values :: init_values
  channel_ln_values :: init_values
  channel_mix_values :: init_values

definition MixerLayer_init ::
  "namespace \<Rightarrow> namespace \<Rightarrow> nat \<Rightarrow> nat \<Rightarrow> nat \<Rightarrow> nat \<Rightarrow> Mixer_values \<Rightarrow> error + MixerLayer" where
  "MixerLayer_init nn globals patches_num dim_hidden dim_tokens dim_channels v =
     bindE (getattr nn ''LinearNorm'') (\<lambda>c1.
     bindE (call c1 [dim_hidden] (token_ln_values v)) (\<lambda>m1.
     bindE (global_name globals ''MLPBlock'') (\<lambda>c2.
     bindE (call c2 [dim_hidden, dim_tokens] (token_mix_values v)) (\<lambda>m2.
     bindE (getattr nn ''LinearNorm'') (\<lambda>c3.
     bindE (call c3 [dim_hidden] (channel_ln_values v)) (\<lambda>m3.
     bindE (global_name globals ''MLPBlock'') (\<lambda>c4.
     bindE (call c4 [dim_hidden, dim_channels] (channel_mix_values v)) (\<lambda>m4.
     Inr \<lparr>token_ln = m1, token_mix = m2, channel_ln = m3, channel_mix = m4\<rparr>))))))))"

definition MixerLayer_forward :: "MixerLayer \<Rightarrow> tensor \<Rightarrow> error + tensor" where
  "MixerLayer_forward self x =
     bindE (module_forward (token_ln self) x) (\<lambda>out1.
     bindE (transpose12 out1) (\<lambda>out2.
     bindE (module_forward (token_mix self) out2) (\<lambda>out3.
     bindE (transpose12 out3) (\<lambda>out4.
     bindE (tensor_add x out4) (\<lambda>s.
     bindE (module_forward (channel_ln self) s) (\<lambda>out5.
     bindE (module_forward (channel_mix self) out5) (\<lambda>out6.
     tensor_add x out6)))))))"

text \<open>
  The two intermediate values the claims name: the output of the token-mixing branch
  restored to the layout of \<open>x\<close> (\<open>out\<close> after the second transposition), and the output
  of the channel-mixing block (\<open>out\<close> before the \<^verbatim>\<open>return\<close>).
\<close>

definition token_out_restored :: "MixerLayer \<Rightarrow> tensor \<Rightarrow> error + tensor" where
  "token_out_restored self x =
     bindE (module_forward (token_ln self) x) (\<lambda>out1.
     bindE (transpose12 out1) (\<lambda>out2.
     bindE (module_forward (token_mix self) out2) (\<lambda>out3.
     transpose12 out3)))"

definition channel_out :: "MixerLayer \<Rightarrow> tensor \<Rightarrow> tensor \<Rightarrow> error + tensor" where
  "channel_out self x out4 =
     bindE (tensor_add x out4) (\<lambda>s.
     bindE (module_forward (channel_ln self) s) (\<lambda>out5.
     module_forward (channel_mix self) out5))"

text \<open>
  The environment in which the two names of the constructor resolve to the classes they
  are spelt after: \<^verbatim>\<open>nn.LinearNorm\<close> read as \<^verbatim>\<open>nn.LayerNorm\<close>, \<^verbatim>\<open>MLPBlock\<close> as the
  notebook's \<^verbatim>\<open>MLPblock\<close>. The layers the forward pass is studied on are those the
  constructor builds there.
\<close>

definition nn_renamed :: namespace where
  "nn_renamed = torch_nn(''LinearNorm'' \<mapsto> LayerNorm_class)"

definition globals_renamed :: namespace where
  "globals_renamed = notebook_globals(''MLPBlock'' \<mapsto> MLPblock_class)"

subsection \<open>The Mixer layer of the spec\<close>

text \<open>
  Modelled from the spec: the Mixer layer of section 4.2 for the configuration
  \<open>{S, C, token_hidden, channel_hidden}\<close>, in the spec's words: the token-mixing block is
  built for \<open>dim_in = S\<close>, the channel-mixing block for \<open>dim_in = C\<close>, the normalisations
  work over the channel axis, and the second residual adds \<open>channel_out\<close> to \<open>x1\<close>, the
  result of the first residual. It is the definition the source's layer is compared
  with.
\<close>

definition spec_MixerLayer_init :: "nat \<Rightarrow> nat \<Rightarrow> nat \<Rightarrow> nat \<Rightarrow> Mixer_values \<Rightarrow> MixerLayer" where
  "spec_MixerLayer_init S C token_hidden channel_hidden v =
     \<lparr>token_ln = LayerNorm_module
        (LayerNorm_init C (norm_weight (token_ln_values v)) (norm_bias (token_ln_values v))),
      token_mix = MLPblock_module
        (MLPblock_init S token_hidden (mlp_values (token_mix_values v))),
      channel_ln = LayerNorm_module
        (LayerNorm_init C (norm_weight (channel_ln_values v)) (norm_bias (channel_ln_values v))),
      channel_mix = MLPblock_module
        (MLPblock_init C channel_hidden (mlp_values (channel_mix_values v)))\<rparr>"

text \<open>
  Modelled from the spec: steps 1 to 8 of section 4.2, with the spec's names for the
  intermediate values. It differs from \<open>MixerLayer_forward\<close> in the last step only.
\<close>

definition spec_MixerLayer_forward :: "MixerLayer \<Rightarrow> tensor \<Rightarrow> error + tensor" where
  "spec_MixerLayer_forward self x =
     bindE (module_forward (token_ln self) x) (\<lambda>normed1.
     bindE (transpose12 normed1) (\<lambda>transposed.
     bindE (module_forward (token_mix self) transposed) (\<lambda>token_out.
     bindE (transpose12 token_out) (\<lambda>restored.
     bindE (tensor_add x restored) (\<lambda>x1.
     bindE (module_forward (channel_ln self) x1) (\<lambda>normed2.
     bindE (module_forward (channel_mix self) normed2) (\<lambda>c_out.
     tensor_add x1 c_out)))))))"

section \<open>The network class\<close>

text \<open>
  The notebook ends inside the parameter list of the constructor of its network class:
  \<^verbatim>\<open>
  class MLP_Mixer(nn.Module):
      def __init__(self, num_classes, num_blocks, size_patch, 
  \<close>
  Python refuses source text that ends inside an open parenthesis. \<open>class_statement\<close>
  models that one check of the parser on the text of a class statement; a class whose
  statement is refused does not exist and cannot be called. What the class would do if
  its statement were accepted is not in the source: \<open>Inr ()\<close> stands for it.

  The three class statements are one cell of the notebook. The model takes each
  statement on its own, as if it were run alone; run as one cell, the refusal of the last
  statement would keep the first two from being executed as well.
\<close>

definition MLP_Mixer_source :: "string list" where
  "MLP_Mixer_source =
     [''class MLP_Mixer(nn.Module):'',
      ''    def __init__(self, num_classes, num_blocks, size_patch, '']"

definition open_parens :: "string \<Rightarrow> int" where
  "open_parens s = int (count_list s (CHR ''('')) - int (count_list s (CHR '')''))"

definition class_statement :: "string list \<Rightarrow> error + unit" where
  "class_statement src = (if open_parens (concat src) = 0 then Inr () else Inl SyntaxError)"

definition MLP_Mixer_new :: "nat list \<Rightarrow> error + unit" where
  "MLP_Mixer_new args = bindE (class_statement MLP_Mixer_source) (\<lambda>_. Inr ())"

section \<open>Patch embedding and network of the spec\<close>

text \<open>
  Modelled from the spec: the patch embedding (section 4.3). The notebook describes it
  in prose and has no code for it. The configuration is the patch size \<open>P\<close> and the
  hidden dimension \<open>C\<close>; the image size \<open>(H, W)\<close> comes from the network's configuration
  and the number of input channels sizes the projection. Construction fails with a
  \<open>ConfigurationError\<close> unless \<open>P\<close> is positive and divides \<open>H\<close> and \<open>W\<close>. The forward
  pass cuts every image into non-overlapping \<open>P\<close> by \<open>P\<close> patches, flattens the pixels of
  a patch across the channels, and applies one shared linear projection to dimension
  \<open>C\<close>; an input of another shape is a \<open>ShapeError\<close>.
\<close>

record PatchEmbedding =
  pe_channels :: nat
  pe_height :: nat
  pe_width :: nat
  pe_patch :: nat
  pe_proj :: Linear

definition spec_PatchEmbedding_init ::
  "nat \<Rightarrow> nat \<times> nat \<Rightarrow> nat \<Rightarrow> nat \<Rightarrow> (nat \<Rightarrow> nat \<Rightarrow> real) \<Rightarrow> (nat \<Rightarrow> real)
     \<Rightarrow> error + PatchEmbedding" where
  "spec_PatchEmbedding_init channels image_size P C w b =
     (if P = 0 \<or> fst image_size mod P \<noteq> 0 \<or> snd image_size mod P \<noteq> 0
      then Inl ConfigurationError
      else Inr \<lparr>pe_channels = channels, pe_height = fst image_size,
                pe_width = snd image_size, pe_patch = P,
                pe_proj = Linear_init (channels * P * P) C w b\<rparr>)"

text \<open>
  Modelled from the spec: the pixels of patch \<open>(pr, pc)\<close> of image \<open>n\<close>, channel by
  channel and row by row, read from the row-major data of the batch.
\<close>

definition patch_vector :: "PatchEmbedding \<Rightarrow> real list \<Rightarrow> nat \<Rightarrow> nat \<Rightarrow> nat \<Rightarrow> real list" where
  "patch_vector pe xs n pr pc =
     concat (map (\<lambda>ch. concat (map (\<lambda>u. map (\<lambda>v.
       xs ! (((n * pe_channels pe + ch) * pe_height pe + (pr * pe_patch pe + u)) * pe_width pe
              + (pc * pe_patch pe + v)))
       [0..<pe_patch pe]) [0..<pe_patch pe])) [0..<pe_channels pe])"

definition patches :: "PatchEmbedding \<Rightarrow> nat \<Rightarrow> real list \<Rightarrow> tensor" where
  "patches pe batch xs =
     \<lparr>shape = [batch, (pe_height pe div pe_patch pe) * (pe_width pe div pe_patch pe),
               pe_channels pe * pe_patch pe * pe_patch pe],
      data = concat (map (\<lambda>n. concat (map (\<lambda>pr. concat (map (\<lambda>pc.
               patch_vector pe xs n pr pc)
               [0..<pe_width pe div pe_patch pe])) [0..<pe_height pe div pe_patch pe]))
               [0..<batch])\<rparr>"

definition spec_PatchEmbedding_forward :: "PatchEmbedding \<Rightarrow> tensor \<Rightarrow> error + tensor" where
  "spec_PatchEmbedding_forward pe x =
     (case shape x of
        [batch, ch, h, w] \<Rightarrow>
          if ch = pe_channels pe \<and> h = pe_height pe \<and> w = pe_width pe
          then Linear_forward (pe_proj pe) (patches pe batch (data x))
          else Inl ShapeError
      | _ \<Rightarrow> Inl ShapeError)"

text \<open>
  Modelled from the spec: the network (section 4.4). The notebook's class for it stops
  inside its constructor's parameter list. The pipeline is the patch embedding, then
  \<open>num_blocks\<close> Mixer layers with parameters of their own, then the average over the
  token axis, then a linear layer from \<open>C\<close> to \<open>num_classes\<close>; no softmax. The Mixer
  layer is the source's class: the network constructs each layer with \<open>MixerLayer_init\<close>,
  for \<open>patches_num = S\<close>, \<open>dim_hidden = C\<close>, \<open>dim_tokens = token_hidden\<close> and
  \<open>dim_channels = channel_hidden\<close>, in the namespaces it is constructed in, and runs it
  with \<open>MixerLayer_forward\<close>.
\<close>

record network_config =
  num_classes :: nat
  num_blocks :: nat
  patch_size :: nat
  hidden_dim :: nat
  token_hidden :: nat
  channel_hidden :: nat
  image_size :: "nat \<times> nat"

record network_values =
  embed_weight :: "nat \<Rightarrow> nat \<Rightarrow> real"
  embed_bias :: "nat \<Rightarrow> real"
  block_values :: "nat \<Rightarrow> Mixer_values"
  head_weight :: "nat \<Rightarrow> nat \<Rightarrow> real"
  head_bias :: "nat \<Rightarrow> real"

record MixerNetwork =
  patch_embedding :: PatchEmbedding
  mixer_layers :: "MixerLayer list"
  classifier :: Linear

fun build_layers ::
  "namespace \<Rightarrow> namespace \<Rightarrow> nat \<Rightarrow> nat \<Rightarrow> nat \<Rightarrow> nat \<Rightarrow> (nat \<Rightarrow> Mixer_values) \<Rightarrow> nat list
     \<Rightarrow> error + MixerLayer list" where
  "build_layers nn globals S C th ch vs [] = Inr []"
| "build_layers nn globals S C th ch vs (k # ks) =
     bindE (MixerLayer_init nn globals S C th ch (vs k)) (\<lambda>l.
     bindE (build_layers nn globals S C th ch vs ks) (\<lambda>ls.
     Inr (l # ls)))"

definition spec_MixerNetwork_init ::
  "namespace \<Rightarrow> namespace \<Rightarrow> network_config \<Rightarrow> nat \<Rightarrow> network_values \<Rightarrow> error + MixerNetwork" where
  "spec_MixerNetwork_init nn globals cfg channels v =
     bindE (spec_PatchEmbedding_init channels (image_size cfg) (patch_size cfg) (hidden_dim cfg)
              (embed_weight v) (embed_bias v)) (\<lambda>pe.
     bindE (build_layers nn globals
              ((fst (image_size cfg) div patch_size cfg) * (snd (image_size cfg) div patch_size cfg))
              (hidden_dim cfg) (token_hidden cfg) (channel_hidden cfg) (block_values v)
              [0..<num_blocks cfg]) (\<lambda>ls.
     Inr \<lparr>patch_embedding = pe, mixer_layers = ls,
          classifier = Linear_init (hidden_dim cfg) (num_classes cfg)
              (head_weight v) (head_bias v)\<rparr>))"

text \<open>
  Modelled from the spec: the Mixer layers in sequence, each run by the source's forward
  pass, and the average over the token axis that reduces \<open>(batch, S, C)\<close> to
  \<open>(batch, C)\<close>.
\<close>

fun run_layers :: "MixerLayer list \<Rightarrow> tensor \<Rightarrow> error + tensor" where
  "run_layers [] x = Inr x"
| "run_layers (l # ls) x = bindE (MixerLayer_forward l x) (run_layers ls)"

definition global_average_pool :: "tensor \<Rightarrow> error + tensor" where
  "global_average_pool t =
     (case shape t of
        [b, s, c] \<Rightarrow>
          Inr \<lparr>shape = [b, c],
               data = concat (map (\<lambda>n. map (\<lambda>k.
                        sum_list (map (\<lambda>j. data t ! ((n * s + j) * c + k)) [0..<s]) / real s)
                        [0..<c]) [0..<b])\<rparr>
      | _ \<Rightarrow> Inl ShapeError)"

text \<open>
  Modelled from the spec: the pipeline of section 4.4; the logits are returned as they
  are.
\<close>

definition spec_MixerNetwork_forward :: "MixerNetwork \<Rightarrow> tensor \<Rightarrow> error + tensor" where
  "spec_MixerNetwork_forward net x =
     bindE (spec_PatchEmbedding_forward (patch_embedding net) x) (\<lambda>t1.
     bindE (run_layers (mixer_layers net) t1) (\<lambda>t2.
     bindE (global_average_pool t2) (\<lambda>t3.
     Linear_forward (classifier net) t3)))"

section \<open>Parameter settings and inputs used below\<close>

definition zeros :: "nat list \<Rightarrow> tensor" where
  "zeros sh = \<lparr>shape = sh, data = replicate (prod_list sh) 0\<rparr>"

definition zero_mlp :: MLP_params where
  "zero_mlp = \<lparr>fc1_weight = \<lambda>j i. 0, fc1_bias = \<lambda>j. 0, fc2_weight = \<lambda>j i. 0, fc2_bias = \<lambda>j. 0\<rparr>"

text \<open>
  Sub-layer values with every weight matrix and every bias vector zero; the scale of
  the normalisation, a vector, is an argument.
\<close>

definition zero_values :: "(nat \<Rightarrow> real) \<Rightarrow> init_values" where
  "zero_values g = \<lparr>norm_weight = g, norm_bias = \<lambda>j. 0, mlp_values = zero_mlp\<rparr>"

definition zero_Mixer_values :: "(nat \<Rightarrow> real) \<Rightarrow> Mixer_values" where
  "zero_Mixer_values g =
     \<lparr>token_ln_values = zero_values g, token_mix_values = zero_values g,
      channel_ln_values = zero_values g, channel_mix_values = zero_values g\<rparr>"

definition zero_network_values :: "(nat \<Rightarrow> real) \<Rightarrow> network_values" where
  "zero_network_values g =
     \<lparr>embed_weight = \<lambda>j i. 0, embed_bias = \<lambda>j. 0, block_values = \<lambda>i. zero_Mixer_values g,
      head_weight = \<lambda>j i. 0, head_bias = \<lambda>j. 0\<rparr>"

text \<open>
  Parameter settings for the evaluations below. The scale of every normalisation is 1
  and its shift 0 unless said otherwise (the library's initial values). In
  \<open>token_bias_values\<close> only the output bias of the token-mixing block is non-zero; in
  \<open>channel_bias_values\<close> only the output bias of the channel-mixing block. In
  \<open>gated_values a\<close> the first normalisation shifts channel \<open>j\<close> by \<open>j\<close>, the token-mixing
  block multiplies its first input by \<open>a\<close>, and the channel-mixing block passes the
  activation of its second input to its first output; two such settings differ in the
  token-mixing block only.
\<close>

definition token_bias_values :: Mixer_values where
  "token_bias_values =
     (zero_Mixer_values (\<lambda>j. 1))
       \<lparr>token_mix_values := (zero_values (\<lambda>j. 1))
          \<lparr>mlp_values := zero_mlp\<lparr>fc2_bias := \<lambda>j. real j + 1\<rparr>\<rparr>\<rparr>"

definition channel_bias_values :: Mixer_values where
  "channel_bias_values =
     (zero_Mixer_values (\<lambda>j. 1))
       \<lparr>channel_mix_values := (zero_values (\<lambda>j. 1))
          \<lparr>mlp_values := zero_mlp\<lparr>fc2_bias := \<lambda>j. 1\<rparr>\<rparr>\<rparr>"

definition gated_values :: "real \<Rightarrow> Mixer_values" where
  "gated_values a =
     \<lparr>token_ln_values =
        \<lparr>norm_weight = \<lambda>j. 1, norm_bias = \<lambda>j. real j, mlp_values = zero_mlp\<rparr>,
      token_mix_values =
        \<lparr>norm_weight = \<lambda>j. 1, norm_bias = \<lambda>j. 0,
         mlp_values = \<lparr>fc1_weight = \<lambda>j i. if i = 0 then a else 0, fc1_bias = \<lambda>j. 0,
                       fc2_weight = \<lambda>j i. 1, fc2_bias = \<lambda>j. 0\<rparr>\<rparr>,
      channel_ln_values = zero_values (\<lambda>j. 1),
      channel_mix_values =
        \<lparr>norm_weight = \<lambda>j. 1, norm_bias = \<lambda>j. 0,
         mlp_values = \<lparr>fc1_weight = \<lambda>j i. if i = 1 then 1 else 0, fc1_bias = \<lambda>j. 0,
                       fc2_weight = \<lambda>j i. if j = 0 then 1 else 0, fc2_bias = \<lambda>j. 0\<rparr>\<rparr>\<rparr>"

text \<open>
  What the normalisation (scale 1, shift 0) makes of the second entry of the vector
  \<open>[0, G]\<close>: its mean is \<open>G / 2\<close> and its variance \<open>G\<^sup>2 / 4\<close>.
\<close>

definition normed :: "real \<Rightarrow> real" where
  "normed G = G / 2 / sqrt (G\<^sup>2 / 4 + 1 / 100000)"

section \<open>Shapes of the library layers\<close>

lemma length_concat_map_const:
  "(\<And>x. x \<in> set xs \<Longrightarrow> length (f x) = n) \<Longrightarrow> length (concat (map f xs)) = length xs * n"
  by (induction xs) auto

lemma length_rows [simp]: "length (rows n k xs) = k"
  by (simp add: rows_def)

lemma length_Linear_row [simp]: "length (Linear_row l x) = out_features l"
  by (simp add: Linear_row_def)

lemma shape_Linear_apply [simp]:
  "shape (Linear_apply l t) = butlast (shape t) @ [out_features l]"
  by (simp add: Linear_apply_def)

lemma wf_Linear_apply [simp]: "wf_tensor (Linear_apply l t)"
  by (simp add: wf_tensor_def Linear_apply_def length_concat_map_const [where n = "out_features l"])

lemma shape_GELU_apply [simp]: "shape (GELU_apply t) = shape t"
  by (simp add: GELU_apply_def)

lemma wf_GELU_apply [simp]: "wf_tensor (GELU_apply t) = wf_tensor t"
  by (simp add: GELU_apply_def wf_tensor_def)

lemma bindE_Inr [simp]: "bindE (Inr v) f = f v"
  by (simp add: bindE_def)

lemma bindE_Inl [simp]: "bindE (Inl e) f = Inl e"
  by (simp add: bindE_def)

lemma MLPblock_forward_init:
  "MLPblock_forward (MLPblock_init d h p) x =
     (if shape x = [] \<or> last (shape x) \<noteq> d then Inl ShapeError
      else Inr (Linear_apply (Linear_init h d (fc2_weight p) (fc2_bias p))
             (GELU_apply (Linear_apply (Linear_init d h (fc1_weight p) (fc1_bias p)) x))))"
  by (simp add: MLPblock_forward_def MLPblock_init_def Linear_forward_def Linear_init_def)

section \<open>Transposition\<close>

lemma concat_map_concat_helper:
  "concat (map (\<lambda>i. concat (F i)) xs) = concat (concat (map F xs))"
  by (induction xs) simp_all

lemma take_drop_concat_uniform:
  "(\<And>x. x \<in> set xss \<Longrightarrow> length x = m) \<Longrightarrow> n < length xss \<Longrightarrow>
     block m n (concat xss) = xss ! n"
proof (induction xss arbitrary: n)
  case Nil
  then show ?case by simp
next
  case (Cons x xss)
  show ?case
  proof (cases n)
    case 0
    then show ?thesis using Cons.prems by (simp add: block_def)
  next
    case (Suc n')
    then show ?thesis using Cons.prems Cons.IH [of n'] by (simp add: block_def)
  qed
qed

lemma nth_concat_map_upt:
  "(\<And>i. i < m \<Longrightarrow> length (F i) = n) \<Longrightarrow> i < m \<Longrightarrow> j < n \<Longrightarrow>
     concat (map F [0..<m]) ! (i * n + j) = F i ! j"
proof (induction m)
  case 0
  then show ?case by simp
next
  case (Suc m)
  have "length (concat (map F [0..<m])) = length [0..<m] * n"
    by (rule length_concat_map_const) (use Suc.prems(1) in auto)
  then have len: "length (concat (map F [0..<m])) = m * n"
    by simp
  show ?case
  proof (cases "i < m")
    case True
    then have "Suc i * n \<le> m * n"
      by (intro mult_le_mono1) simp
    then have "i * n + j < m * n"
      using Suc.prems(3) by simp
    then show ?thesis using Suc True len by (simp add: nth_append)
  next
    case False
    then have "i = m" using Suc.prems(2) by simp
    then show ?thesis using len by (simp add: nth_append)
  qed
qed

lemma concat_map_upt_flatten:
  "concat (map (\<lambda>i. concat (map (\<lambda>j. h (i * n + j)) [0..<n])) [0..<m])
     = concat (map h [0..<m * n])"
proof (induction m)
  case 0
  then show ?case by simp
next
  case (Suc m)
  have "map (\<lambda>j. m * n + j) [0..<n] = map (\<lambda>j. j + m * n) [0..<n]"
    by (simp only: add.commute)
  also have "\<dots> = [m * n..<n + m * n]"
    by (rule map_add_upt)
  finally have shift: "[m * n..<m * n + n] = map (\<lambda>j. m * n + j) [0..<n]"
    by (simp only: add.commute)
  have "[0..<m * n + n] = [0..<m * n] @ [m * n..<m * n + n]"
    by (rule upt_add_eq_append) simp
  then have "map h [0..<Suc m * n] = map h [0..<m * n] @ map (\<lambda>j. h (m * n + j)) [0..<n]"
    by (simp only: shift map_append map_map o_def mult_Suc add.commute [of n "m * n"])
  then show ?case using Suc by simp
qed

lemma concat_rows_take:
  "concat (map (\<lambda>n. block m n xs) [0..<N]) = take (N * m) xs"
proof (induction N)
  case 0
  then show ?case by simp
next
  case (Suc N)
  have "take (Suc N * m) xs = take (N * m + m) xs"
    by (simp add: add.commute)
  also have "\<dots> = take (N * m) xs @ take m (drop (N * m) xs)"
    by (rule take_add)
  finally show ?case using Suc by (simp add: block_def)
qed

lemma index_bound: "i < a \<Longrightarrow> j < (b::nat) \<Longrightarrow> i * b + j < a * b"
proof -
  assume "i < a" and "j < b"
  then have "Suc i * b \<le> a * b"
    by (intro mult_le_mono1) simp
  then show ?thesis using \<open>j < b\<close> by simp
qed

lemma length_block:
  "Suc n * m \<le> length xs \<Longrightarrow> length (block m n xs) = m"
  by (simp add: block_def)

lemma swap12_blocks:
  "swap12 b s c m xs =
     concat (concat (map (\<lambda>i. concat (map (\<lambda>j. map (\<lambda>k.
       block m ((i * s + k) * c + j) xs) [0..<s]) [0..<c])) [0..<b]))"
  unfolding swap12_def
  by (induction b) (simp_all add: concat_map_concat_helper)

lemma swap12_involution:
  assumes len: "length xs = b * s * c * m"
  shows "swap12 b c s m (swap12 b s c m xs) = xs"
    and "length (swap12 b s c m xs) = b * c * s * m"
proof -
  define B where "B i j k = block m ((i * s + k) * c + j) xs" for i j k
  define R where "R = (\<lambda>i. concat (map (\<lambda>j. map (\<lambda>k. B i j k) [0..<s]) [0..<c]))"
  define L where "L = concat (map R [0..<b])"
  have ys: "swap12 b s c m xs = concat L"
    unfolding L_def R_def B_def by (rule swap12_blocks)
  have lenB: "length (B i j k) = m" if "i < b" "j < c" "k < s" for i j k
  proof -
    have "i * s + k < b * s" using that by (intro index_bound)
    then have "(i * s + k) * c + j < b * s * c" using that by (intro index_bound)
    then have "Suc ((i * s + k) * c + j) * m \<le> b * s * c * m"
      by (intro mult_le_mono1) simp
    then show ?thesis unfolding B_def using len by (intro length_block) simp
  qed
  have lenR: "length (R i) = c * s" for i
  proof -
    have "length (R i) = length [0..<c] * s"
      unfolding R_def by (rule length_concat_map_const) simp
    then show ?thesis by simp
  qed
  have lenL: "length L = b * (c * s)"
  proof -
    have "length L = length [0..<b] * (c * s)"
      unfolding L_def by (rule length_concat_map_const) (simp add: lenR)
    then show ?thesis by simp
  qed
  have allm: "length x = m" if "x \<in> set L" for x
    using that lenB by (auto simp: L_def R_def)
  have nthL: "L ! ((i * c + k) * s + j) = B i k j" if "i < b" "k < c" "j < s" for i j k
  proof -
    have kj: "k * s + j < c * s" using that by (intro index_bound)
    have eq: "(i * c + k) * s + j = i * (c * s) + (k * s + j)"
      by (simp add: algebra_simps)
    have "L ! (i * (c * s) + (k * s + j)) = R i ! (k * s + j)"
      unfolding L_def using that kj lenR by (intro nth_concat_map_upt) simp_all
    then have "L ! ((i * c + k) * s + j) = R i ! (k * s + j)"
      by (simp only: eq)
    also have "\<dots> = map (\<lambda>k'. B i k k') [0..<s] ! j"
      unfolding R_def
      using nth_concat_map_upt [of c "\<lambda>j. map (\<lambda>k. B i j k) [0..<s]" s k j] that
      by simp
    also have "\<dots> = B i k j" using that by simp
    finally show ?thesis .
  qed
  have blk: "block m ((i * c + k) * s + j) (concat L) = block m ((i * s + j) * c + k) xs"
    if "i < b" "j < s" "k < c" for i j k
  proof -
    have "i * c + k < b * c" using that by (intro index_bound)
    then have "(i * c + k) * s + j < b * c * s" using that by (intro index_bound)
    then have "(i * c + k) * s + j < length L" by (simp add: lenL mult.assoc)
    then have "block m ((i * c + k) * s + j) (concat L) = L ! ((i * c + k) * s + j)"
      using allm by (intro take_drop_concat_uniform)
    then show ?thesis using nthL that by (simp add: B_def)
  qed
  define h where "h n = block m n xs" for n
  have blk': "block m ((i * c + k) * s + j) (concat L) = h (i * (s * c) + (j * c + k))"
    if "i < b" "j < s" "k < c" for i j k
  proof -
    have "(i * s + j) * c + k = i * (s * c) + (j * c + k)"
      by (simp add: algebra_simps)
    then show ?thesis using blk [OF that] by (simp only: h_def)
  qed
  have "swap12 b c s m (concat L) =
          concat (map (\<lambda>i. concat (map (\<lambda>j. concat (map (\<lambda>k.
            h (i * (s * c) + (j * c + k))) [0..<c])) [0..<s])) [0..<b])"
    unfolding swap12_def
    by (intro arg_cong [where f = concat] map_cong refl) (simp add: blk')
  also have "\<dots> = concat (map (\<lambda>i. concat (map (\<lambda>q. h (i * (s * c) + q)) [0..<s * c])) [0..<b])"
    by (simp add: concat_map_upt_flatten [where h = "\<lambda>q. h (i * (s * c) + q)" for i])
  also have "\<dots> = concat (map h [0..<b * (s * c)])"
    by (rule concat_map_upt_flatten)
  also have "\<dots> = take (b * (s * c) * m) xs"
    unfolding h_def by (rule concat_rows_take)
  also have "\<dots> = xs" using len by (simp add: mult.assoc)
  finally show "swap12 b c s m (swap12 b s c m xs) = xs" using ys by simp
  have "length (concat (map (\<lambda>x. x) L)) = length L * m"
    by (rule length_concat_map_const) (rule allm)
  then show "length (swap12 b s c m xs) = b * c * s * m"
    using ys lenL by (simp add: mult.assoc)
qed

lemma transpose12_twice:
  assumes "wf_tensor t" and "shape t = b # s # c # rest"
  shows "\<exists>u. transpose12 t = Inr u \<and> shape u = b # c # s # rest \<and> wf_tensor u
           \<and> transpose12 u = Inr t"
proof -
  define u where "u = \<lparr>shape = b # c # s # rest, data = swap12 b s c (prod_list rest) (data t)\<rparr>"
  have len: "length (data t) = b * s * c * prod_list rest"
    using assms by (simp add: wf_tensor_def mult.assoc)
  have "transpose12 t = Inr u"
    using assms(2) by (simp add: transpose12_def u_def)
  moreover have "wf_tensor u"
    using swap12_involution(2) [OF len] by (simp add: wf_tensor_def u_def mult.assoc)
  moreover have "transpose12 u = Inr t"
    using swap12_involution(1) [OF len] assms(2) by (simp add: transpose12_def u_def)
  ultimately show ?thesis by (auto simp: u_def)
qed

section \<open>The steps of the Mixer layer\<close>

lemma shape_LayerNorm_apply [simp]: "shape (LayerNorm_apply l t) = shape t"
  by (simp add: LayerNorm_apply_def)

lemma length_LayerNorm_row [simp]: "length (LayerNorm_row l xs) = normalized_shape l"
  by (simp add: LayerNorm_row_def)

lemma prod_list_butlast: "sh \<noteq> [] \<Longrightarrow> prod_list (butlast sh) * last sh = prod_list sh"
  by (induction sh) (auto simp: mult.assoc)

lemma wf_LayerNorm_apply:
  "shape t \<noteq> [] \<Longrightarrow> last (shape t) = normalized_shape l \<Longrightarrow> wf_tensor (LayerNorm_apply l t)"
  using prod_list_butlast [of "shape t"]
  by (simp add: wf_tensor_def LayerNorm_apply_def
        length_concat_map_const [where n = "normalized_shape l"])

lemma MixerLayer_init_renamed:
  "MixerLayer_init nn_renamed globals_renamed patches_num dim_hidden dim_tokens dim_channels v
     = Inr (spec_MixerLayer_init dim_hidden dim_hidden dim_tokens dim_channels v)"
  by (simp add: MixerLayer_init_def nn_renamed_def globals_renamed_def getattr_def
        global_name_def spec_MixerLayer_init_def)

lemma MixerLayer_init_as_written:
  "MixerLayer_init torch_nn notebook_globals patches_num dim_hidden dim_tokens dim_channels v
     = Inl (AttributeError ''LinearNorm'')"
  by (simp add: MixerLayer_init_def getattr_def torch_nn_def)

lemma LayerNorm_module_ok:
  assumes "shape t \<noteq> []" and "last (shape t) = C"
  shows "\<exists>y. module_forward (LayerNorm_module (LayerNorm_init C g b)) t = Inr y
           \<and> y = LayerNorm_apply (LayerNorm_init C g b) t \<and> shape y = shape t \<and> wf_tensor y"
  using assms wf_LayerNorm_apply [of t "LayerNorm_init C g b"]
  by (simp add: LayerNorm_forward_def LayerNorm_init_def)

lemma MLPblock_module_ok:
  assumes "shape t \<noteq> []" and "last (shape t) = d"
  shows "\<exists>y. module_forward (MLPblock_module (MLPblock_init d h p)) t = Inr y
           \<and> shape y = shape t \<and> wf_tensor y"
proof -
  have "butlast (shape t) @ [d] = shape t"
    using assms by (metis append_butlast_last_id)
  then show ?thesis
    using assms by (simp add: MLPblock_forward_init Linear_init_def)
qed

lemma MLPblock_module_bad:
  assumes "shape t = [] \<or> last (shape t) \<noteq> d"
  shows "module_forward (MLPblock_module (MLPblock_init d h p)) t = Inl ShapeError"
  using assms by (auto simp: MLPblock_forward_init)

lemma transpose12_3:
  "shape t = [b, s, c] \<Longrightarrow>
     transpose12 t = Inr \<lparr>shape = [b, c, s], data = swap12 b s c 1 (data t)\<rparr>"
  by (simp add: transpose12_def)

lemma tensor_add_same:
  "shape a = shape b \<Longrightarrow>
     tensor_add a b = Inr \<lparr>shape = shape a, data = map2 (+) (data a) (data b)\<rparr>"
  by (simp add: tensor_add_def)

lemma token_steps:
  assumes x: "shape x = [b, S', C]"
  shows "\<exists>n1 t1. module_forward (token_ln (spec_MixerLayer_init S C th ch v)) x = Inr n1
           \<and> shape n1 = [b, S', C]
           \<and> transpose12 n1 = Inr t1 \<and> shape t1 = [b, C, S']
           \<and> (S' \<noteq> S \<longrightarrow>
                module_forward (token_mix (spec_MixerLayer_init S C th ch v)) t1 = Inl ShapeError)
           \<and> (S' = S \<longrightarrow> (\<exists>o1 r.
                module_forward (token_mix (spec_MixerLayer_init S C th ch v)) t1 = Inr o1
                \<and> shape o1 = [b, C, S]
                \<and> transpose12 o1 = Inr r \<and> shape r = [b, S, C]))"
proof -
  let ?L = "spec_MixerLayer_init S C th ch v"
  obtain n1 where n1: "module_forward (token_ln ?L) x = Inr n1" "shape n1 = [b, S', C]"
    using LayerNorm_module_ok [of x C "norm_weight (token_ln_values v)"
        "norm_bias (token_ln_values v)"] x
    by (auto simp: spec_MixerLayer_init_def)
  define t1 where "t1 = \<lparr>shape = [b, C, S'], data = swap12 b S' C 1 (data n1)\<rparr>"
  have t1: "transpose12 n1 = Inr t1" "shape t1 = [b, C, S']"
    using transpose12_3 [OF n1(2)] by (simp_all add: t1_def)
  have bad: "module_forward (token_mix ?L) t1 = Inl ShapeError" if "S' \<noteq> S"
    using MLPblock_module_bad [of t1 S th "mlp_values (token_mix_values v)"] t1(2) that
    by (simp add: spec_MixerLayer_init_def)
  have good: "\<exists>o1 r. module_forward (token_mix ?L) t1 = Inr o1 \<and> shape o1 = [b, C, S]
                \<and> transpose12 o1 = Inr r \<and> shape r = [b, S, C]" if eq: "S' = S"
  proof -
    obtain o1 where o1: "module_forward (token_mix ?L) t1 = Inr o1" "shape o1 = [b, C, S]"
      using MLPblock_module_ok [of t1 S th "mlp_values (token_mix_values v)"] t1(2) eq
      by (auto simp: spec_MixerLayer_init_def)
    show ?thesis using o1 transpose12_3 [OF o1(2)] by simp
  qed
  show ?thesis using n1 t1 bad good by blast
qed

lemma channel_steps:
  assumes x: "shape x = [b, S, C]" and r: "shape r = [b, S, C]"
  shows "\<exists>x1 n2 co. tensor_add x r = Inr x1 \<and> shape x1 = [b, S, C]
           \<and> module_forward (channel_ln (spec_MixerLayer_init S0 C th ch v)) x1 = Inr n2
           \<and> n2 = LayerNorm_apply (LayerNorm_init C (norm_weight (channel_ln_values v))
                    (norm_bias (channel_ln_values v))) x1
           \<and> shape n2 = [b, S, C]
           \<and> module_forward (channel_mix (spec_MixerLayer_init S0 C th ch v)) n2 = Inr co
           \<and> shape co = [b, S, C]"
proof -
  let ?L = "spec_MixerLayer_init S0 C th ch v"
  define x1 where "x1 = \<lparr>shape = shape x, data = map2 (+) (data x) (data r)\<rparr>"
  have x1: "tensor_add x r = Inr x1" "shape x1 = [b, S, C]"
    using tensor_add_same [of x r] x r by (simp_all add: x1_def)
  obtain n2 where n2: "module_forward (channel_ln ?L) x1 = Inr n2" "shape n2 = [b, S, C]"
    "n2 = LayerNorm_apply (LayerNorm_init C (norm_weight (channel_ln_values v))
                    (norm_bias (channel_ln_values v))) x1"
    using LayerNorm_module_ok [of x1 C "norm_weight (channel_ln_values v)"
        "norm_bias (channel_ln_values v)"] x1(2)
    by (auto simp: spec_MixerLayer_init_def)
  obtain co where co: "module_forward (channel_mix ?L) n2 = Inr co" "shape co = [b, S, C]"
    using MLPblock_module_ok [of n2 C ch "mlp_values (channel_mix_values v)"] n2(2)
    by (auto simp: spec_MixerLayer_init_def)
  show ?thesis using x1 n2 co by blast
qed

lemma MixerLayer_forward_shape:
  assumes x: "shape x = [b, S, C]"
  shows "\<exists>y. MixerLayer_forward (spec_MixerLayer_init S C th ch v) x = Inr y \<and> shape y = [b, S, C]"
proof -
  let ?L = "spec_MixerLayer_init S C th ch v"
  from token_steps [OF x, of S th ch v]
  obtain n1 t1 o1 r where tk: "module_forward (token_ln ?L) x = Inr n1"
    "transpose12 n1 = Inr t1" "module_forward (token_mix ?L) t1 = Inr o1"
    "transpose12 o1 = Inr r" "shape r = [b, S, C]" by auto
  from channel_steps [OF x tk(5), of S th ch v]
  obtain x1 n2 co where cs: "tensor_add x r = Inr x1"
    "module_forward (channel_ln ?L) x1 = Inr n2"
    "module_forward (channel_mix ?L) n2 = Inr co" "shape co = [b, S, C]" by auto
  have "MixerLayer_forward ?L x = tensor_add x co"
    unfolding MixerLayer_forward_def by (simp only: tk cs bindE_Inr)
  then show ?thesis using tensor_add_same [of x co] x cs(4) by simp
qed

lemma spec_MixerLayer_forward_shape:
  assumes x: "shape x = [b, S, C]"
  shows "\<exists>y. spec_MixerLayer_forward (spec_MixerLayer_init S C th ch v) x = Inr y
           \<and> shape y = [b, S, C]"
proof -
  let ?L = "spec_MixerLayer_init S C th ch v"
  from token_steps [OF x, of S th ch v]
  obtain n1 t1 o1 r where tk: "module_forward (token_ln ?L) x = Inr n1"
    "transpose12 n1 = Inr t1" "module_forward (token_mix ?L) t1 = Inr o1"
    "transpose12 o1 = Inr r" "shape r = [b, S, C]" by auto
  from channel_steps [OF x tk(5), of S th ch v]
  obtain x1 n2 co where cs: "tensor_add x r = Inr x1" "shape x1 = [b, S, C]"
    "module_forward (channel_ln ?L) x1 = Inr n2"
    "module_forward (channel_mix ?L) n2 = Inr co" "shape co = [b, S, C]" by auto
  have "spec_MixerLayer_forward ?L x = tensor_add x1 co"
    unfolding spec_MixerLayer_forward_def by (simp only: tk cs bindE_Inr)
  then show ?thesis using tensor_add_same [of x1 co] cs(2,5) by simp
qed

lemma MixerLayer_forward_mismatch:
  assumes x: "shape x = [b, S', C]" and "S' \<noteq> S"
  shows "MixerLayer_forward (spec_MixerLayer_init S C th ch v) x = Inl ShapeError"
proof -
  let ?L = "spec_MixerLayer_init S C th ch v"
  from token_steps [OF x, of S th ch v] assms(2)
  obtain n1 t1 where tk: "module_forward (token_ln ?L) x = Inr n1"
    "transpose12 n1 = Inr t1" "module_forward (token_mix ?L) t1 = Inl ShapeError" by auto
  show ?thesis
    unfolding MixerLayer_forward_def by (simp only: tk bindE_Inr bindE_Inl)
qed

section \<open>Well-formed tensors stay well-formed\<close>

lemma Sequential_forward_wf:
  "Sequential_forward ls t = Inr t' \<Longrightarrow> wf_tensor t \<Longrightarrow> wf_tensor t'"
proof (induction ls arbitrary: t)
  case Nil
  then show ?case by simp
next
  case (Cons l ls)
  show ?case
  proof (cases l)
    case (Linear_layer lin)
    with Cons.prems(1) have "Sequential_forward ls (Linear_apply lin t) = Inr t'"
      by (simp add: Linear_forward_def split: if_splits)
    then show ?thesis using Cons.IH by simp
  next
    case GELU_layer
    with Cons.prems(1) have "Sequential_forward ls (GELU_apply t) = Inr t'"
      by simp
    then show ?thesis using Cons.IH Cons.prems(2) by simp
  qed
qed

lemma module_forward_wf:
  "module_forward m t = Inr t' \<Longrightarrow> wf_tensor t \<Longrightarrow> wf_tensor t'"
proof (cases m)
  case (LayerNorm_module l)
  assume "module_forward m t = Inr t'"
  with LayerNorm_module show ?thesis
    by (auto simp: LayerNorm_forward_def wf_LayerNorm_apply split: if_splits)
next
  case (MLPblock_module blk)
  assume "module_forward m t = Inr t'" and "wf_tensor t"
  with MLPblock_module show ?thesis
    by (auto simp: MLPblock_forward_def dest: Sequential_forward_wf)
qed

lemma transpose12_wf:
  assumes "transpose12 t = Inr u" and "wf_tensor t"
  shows "wf_tensor u"
proof -
  from assms(1) obtain b s c rest where sh: "shape t = b # s # c # rest"
    by (auto simp: transpose12_def split: list.splits)
  from transpose12_twice [OF assms(2) sh] assms(1) show ?thesis by auto
qed

lemma tensor_add_wf:
  assumes "tensor_add a b = Inr c" and "wf_tensor a" and "wf_tensor b"
  shows "wf_tensor c \<and> shape c = shape a \<and> shape b = shape a
           \<and> data c = map2 (+) (data a) (data b) \<and> length (data b) = length (data a)"
  using assms by (auto simp: tensor_add_def wf_tensor_def split: if_splits)

lemma token_out_restored_wf:
  assumes "token_out_restored L x = Inr r" and "wf_tensor x"
  shows "wf_tensor r"
proof -
  from assms(1) obtain o1 o2 o3 where
    "module_forward (token_ln L) x = Inr o1" "transpose12 o1 = Inr o2"
    "module_forward (token_mix L) o2 = Inr o3" "transpose12 o3 = Inr r"
    by (auto simp: token_out_restored_def bindE_def split: sum.splits)
  then show ?thesis
    using assms(2) module_forward_wf transpose12_wf by blast
qed

lemma MixerLayer_forward_decomp:
  "MixerLayer_forward L x =
     bindE (token_out_restored L x) (\<lambda>r. bindE (channel_out L x r) (tensor_add x))"
  by (simp add: MixerLayer_forward_def token_out_restored_def channel_out_def bindE_def
      split: sum.splits)

lemma spec_MixerLayer_forward_decomp:
  "spec_MixerLayer_forward L x =
     bindE (token_out_restored L x) (\<lambda>r. bindE (tensor_add x r) (\<lambda>x1.
       bindE (channel_out L x r) (tensor_add x1)))"
  by (simp add: spec_MixerLayer_forward_def token_out_restored_def channel_out_def bindE_def
      split: sum.splits)

lemma map2_add_zero:
  fixes xs rs :: "real list"
  assumes "length rs = length xs" and "\<forall>v\<in>set rs. v = 0"
  shows "map2 (+) xs rs = xs"
  using assms
proof (induction xs arbitrary: rs)
  case Nil
  then show ?case by simp
next
  case (Cons x xs)
  then obtain r rs' where "rs = r # rs'"
    by (metis length_Suc_conv)
  with Cons show ?case by auto
qed

lemma residual_operand_zero_token_out:
  assumes wf: "wf_tensor x"
    and r: "token_out_restored L x = Inr r"
    and y: "MixerLayer_forward L x = Inr y"
    and y': "spec_MixerLayer_forward L x = Inr y'"
    and z: "\<forall>v\<in>set (data r). v = 0"
  shows "y = y'"
proof -
  have wr: "wf_tensor r" using token_out_restored_wf [OF r wf] .
  from y r obtain co where co: "channel_out L x r = Inr co" and yc: "tensor_add x co = Inr y"
    by (auto simp: MixerLayer_forward_decomp bindE_def split: sum.splits)
  from y' r co obtain x1 where x1: "tensor_add x r = Inr x1" and y1: "tensor_add x1 co = Inr y'"
    by (auto simp: spec_MixerLayer_forward_decomp bindE_def split: sum.splits)
  note b = tensor_add_wf [OF x1 wf wr]
  have "data x1 = data x"
    using b map2_add_zero [of "data r" "data x"] z by simp
  then have "x1 = x"
    using b by (cases x, cases x1) simp
  then show ?thesis using yc y1 by simp
qed

section \<open>The activation\<close>

lemma erf_nonneg:
  assumes "0 \<le> y" and "y \<le> 1"
  shows "0 \<le> erf y"
proof -
  define a where "a n = y ^ (2 * n + 1) / (fact n * real (2 * n + 1))" for n
  have pos: "0 \<le> a n" for n
    using assms by (simp add: a_def)
  have le_inv: "a n \<le> inverse (real (Suc n))" for n
  proof -
    have "y ^ (2 * n + 1) \<le> 1"
      using assms by (intro power_le_one)
    moreover have "real (Suc n) \<le> fact n * real (2 * n + 1)"
    proof -
      have "(1::real) \<le> fact n" by (rule fact_ge_1)
      moreover have "real (Suc n) \<le> real (2 * n + 1)" by simp
      ultimately have "1 * real (Suc n) \<le> fact n * real (2 * n + 1)"
        by (intro mult_mono) simp_all
      then show ?thesis by simp
    qed
    ultimately have "y ^ (2 * n + 1) / (fact n * real (2 * n + 1)) \<le> 1 / real (Suc n)"
      by (intro frac_le) simp_all
    then show ?thesis by (simp add: a_def inverse_eq_divide)
  qed
  have ev1: "\<forall>\<^sub>F n in sequentially. 0 \<le> a n"
    using pos by (intro always_eventually allI)
  have ev2: "\<forall>\<^sub>F n in sequentially. a n \<le> inverse (real (Suc n))"
    using le_inv by (intro always_eventually allI)
  have zero: "a \<longlonglongrightarrow> 0"
    by (rule tendsto_sandwich [OF ev1 ev2 tendsto_const LIMSEQ_inverse_real_of_nat])
  have mono: "a (Suc n) \<le> a n" for n
  proof -
    have "y ^ (2 * Suc n + 1) \<le> y ^ (2 * n + 1)"
      using assms by (intro power_decreasing) simp_all
    moreover have "(fact n * real (2 * n + 1) :: real) \<le> fact (Suc n) * real (2 * Suc n + 1)"
      by (intro mult_mono) (simp_all add: fact_mono)
    ultimately show ?thesis
      unfolding a_def using assms by (intro frac_le) simp_all
  qed
  have "(\<Sum>i<2 * 0. (- 1) ^ i * a i) \<le> (\<Sum>i. (- 1) ^ i * a i)"
    by (rule summable_Leibniz'(2) [OF zero pos mono])
  then have "0 \<le> (\<Sum>n. (- 1) ^ n * y ^ (2 * n + 1) / (fact n * real (2 * n + 1)))"
    by (simp add: a_def)
  then show ?thesis by (simp add: erf_def)
qed

lemma GELU_zero [simp]: "GELU 0 = 0"
  by (simp add: GELU_def)

lemma GELU_pos:
  assumes "0 < z" and "z \<le> 1"
  shows "0 < GELU z"
proof -
  have "1 \<le> sqrt 2" by simp
  then have "z / sqrt 2 \<le> 1 / 1"
    using assms by (intro frac_le) simp_all
  then have "0 \<le> erf (z / sqrt 2)"
    using assms by (intro erf_nonneg) simp_all
  then have "0 < (1 + erf (z / sqrt 2)) / 2" by simp
  then show ?thesis using assms unfolding GELU_def by (intro mult_pos_pos)
qed

section \<open>Evaluating the layer on small inputs\<close>

lemma replicate_numeral: "replicate (numeral k) x = x # replicate (pred_numeral k) x"
  by (simp add: numeral_eq_Suc)

lemmas layer_eval =
  spec_MixerLayer_init_def zero_Mixer_values_def zero_values_def zero_mlp_def zeros_def
  LayerNorm_forward_def LayerNorm_init_def LayerNorm_apply_def rows_def
  MLPblock_forward_def MLPblock_init_def Linear_forward_def Linear_init_def Linear_apply_def
  Linear_row_def GELU_apply_def
  transpose12_def swap12_def block_def tensor_add_def upt_rec replicate_numeral

lemmas norm_eval = LayerNorm_row_def mean_def variance_def

lemma token_bias_token_out:
  "token_out_restored (spec_MixerLayer_init 2 2 1 1 token_bias_values) (zeros [1, 2, 2])
     = Inr \<lparr>shape = [1, 2, 2], data = [1, 1, 2, 2]\<rparr>"
  by (simp add: token_out_restored_def token_bias_values_def layer_eval norm_eval)

lemma token_bias_channel_out:
  "channel_out (spec_MixerLayer_init 2 2 1 1 token_bias_values) (zeros [1, 2, 2])
       \<lparr>shape = [1, 2, 2], data = [1, 1, 2, 2]\<rparr>
     = Inr \<lparr>shape = [1, 2, 2], data = [0, 0, 0, 0]\<rparr>"
  by (simp add: channel_out_def token_bias_values_def layer_eval norm_eval)

lemma token_bias_forward:
  "MixerLayer_forward (spec_MixerLayer_init 2 2 1 1 token_bias_values) (zeros [1, 2, 2])
     = Inr \<lparr>shape = [1, 2, 2], data = [0, 0, 0, 0]\<rparr>"
  by (simp add: MixerLayer_forward_def token_bias_values_def layer_eval norm_eval)

lemma token_bias_spec_forward:
  "spec_MixerLayer_forward (spec_MixerLayer_init 2 2 1 1 token_bias_values) (zeros [1, 2, 2])
     = Inr \<lparr>shape = [1, 2, 2], data = [1, 1, 2, 2]\<rparr>"
  by (simp add: spec_MixerLayer_forward_def token_bias_values_def layer_eval norm_eval)

lemma LayerNorm_row_pair:
  "LayerNorm_row \<lparr>normalized_shape = 2, ln_weight = \<lambda>j. 1, ln_bias = \<lambda>j. 0, eps = 1 / 100000\<rparr>
     [0, G] = [- normed G, normed G]"
proof -
  have m: "mean [0, G] = G / 2" by (simp add: mean_def)
  have "variance [0, G] = ((0 - G / 2)\<^sup>2 + (G - G / 2)\<^sup>2) / 2"
    by (simp add: variance_def m)
  also have "\<dots> = G\<^sup>2 / 4"
    by (simp add: power2_eq_square field_simps)
  finally have v: "variance [0, G] = G\<^sup>2 / 4" .
  have "G - G / 2 = G / 2" by simp
  then show ?thesis
    by (simp add: LayerNorm_row_def m v normed_def upt_rec)
qed

lemma normed_zero [simp]: "normed 0 = 0"
  by (simp add: normed_def)

lemma normed_range:
  assumes "0 < G"
  shows "0 < normed G" and "normed G \<le> 1"
proof -
  have pos: "0 < sqrt (G\<^sup>2 / 4 + 1 / 100000)"
    by (intro real_sqrt_gt_zero add_nonneg_pos) simp_all
  then show "0 < normed G"
    using assms by (simp add: normed_def)
  have "(G / 2)\<^sup>2 \<le> G\<^sup>2 / 4 + 1 / 100000"
    by (simp add: power2_eq_square)
  then have "G / 2 \<le> sqrt (G\<^sup>2 / 4 + 1 / 100000)"
    by (rule real_le_rsqrt)
  then show "normed G \<le> 1"
    using pos by (simp add: normed_def)
qed

lemma gated_token_out:
  "token_out_restored (spec_MixerLayer_init 2 2 1 1 (gated_values a)) (zeros [1, 2, 2])
     = Inr \<lparr>shape = [1, 2, 2], data = [0, GELU a, 0, GELU a]\<rparr>"
  by (simp add: token_out_restored_def gated_values_def layer_eval norm_eval)

lemma gated_channel_out:
  "channel_out (spec_MixerLayer_init 2 2 1 1 (gated_values a)) (zeros [1, 2, 2])
       \<lparr>shape = [1, 2, 2], data = [0, G, 0, G]\<rparr>
     = Inr \<lparr>shape = [1, 2, 2], data = [GELU (normed G), 0, GELU (normed G), 0]\<rparr>"
  by (simp add: channel_out_def gated_values_def layer_eval LayerNorm_row_pair)

lemma gated_forward:
  "MixerLayer_forward (spec_MixerLayer_init 2 2 1 1 (gated_values a)) (zeros [1, 2, 2])
     = Inr \<lparr>shape = [1, 2, 2],
            data = [GELU (normed (GELU a)), 0, GELU (normed (GELU a)), 0]\<rparr>"
proof -
  let ?L = "spec_MixerLayer_init 2 2 1 1 (gated_values a)"
  have "MixerLayer_forward ?L (zeros [1, 2, 2]) =
          tensor_add (zeros [1, 2, 2])
            \<lparr>shape = [1, 2, 2], data = [GELU (normed (GELU a)), 0, GELU (normed (GELU a)), 0]\<rparr>"
    by (simp only: MixerLayer_forward_decomp gated_token_out gated_channel_out bindE_Inr)
  then show ?thesis
    by (simp add: tensor_add_def zeros_def replicate_numeral)
qed

lemma gated_runs_differ:
  "MixerLayer_forward (spec_MixerLayer_init 2 2 1 1 (gated_values 0)) (zeros [1, 2, 2])
     \<noteq> MixerLayer_forward (spec_MixerLayer_init 2 2 1 1 (gated_values 1)) (zeros [1, 2, 2])"
proof -
  have g: "0 < GELU 1" by (rule GELU_pos) simp_all
  have "0 < GELU (normed (GELU 1))"
    using normed_range [OF g] by (rule GELU_pos)
  then show ?thesis unfolding gated_forward by simp
qed

section \<open>Shapes in the network of the spec\<close>

lemma spec_PatchEmbedding_forward_shape:
  assumes "spec_PatchEmbedding_init channels (H, W) P C w b = Inr pe"
    and "shape x = [batch, channels, H, W]"
  shows "\<exists>y. spec_PatchEmbedding_forward pe x = Inr y
           \<and> y = Linear_apply (pe_proj pe) (patches pe batch (data x))
           \<and> shape y = [batch, (H div P) * (W div P), C]"
  using assms
  by (auto simp: spec_PatchEmbedding_init_def spec_PatchEmbedding_forward_def patches_def
      Linear_forward_def Linear_init_def split: if_splits)

lemma build_layers_renamed:
  "build_layers nn_renamed globals_renamed S C th ch vs ks
     = Inr (map (\<lambda>k. spec_MixerLayer_init C C th ch (vs k)) ks)"
  by (induction ks) (simp_all add: MixerLayer_init_renamed)

lemma build_layers_as_written:
  "ks \<noteq> [] \<Longrightarrow>
     build_layers torch_nn notebook_globals S C th ch vs ks = Inl (AttributeError ''LinearNorm'')"
  by (cases ks) (simp_all add: MixerLayer_init_as_written)

lemma upt_first: "0 < n \<Longrightarrow> [0..<n] = 0 # [1..<n]"
  by (simp add: upt_conv_Cons)

lemma spec_MixerNetwork_as_written:
  assumes "0 < patch_size cfg" "fst (image_size cfg) mod patch_size cfg = 0"
    "snd (image_size cfg) mod patch_size cfg = 0" and "0 < num_blocks cfg"
  shows "spec_MixerNetwork_init torch_nn notebook_globals cfg channels v
           = Inl (AttributeError ''LinearNorm'')"
  using assms
  by (simp add: spec_MixerNetwork_init_def spec_PatchEmbedding_init_def build_layers_as_written)

lemma spec_MixerNetwork_mismatch:
  assumes P: "0 < patch_size cfg" "fst (image_size cfg) mod patch_size cfg = 0"
    "snd (image_size cfg) mod patch_size cfg = 0"
    and n: "0 < num_blocks cfg"
    and ne: "(fst (image_size cfg) div patch_size cfg) * (snd (image_size cfg) div patch_size cfg)
               \<noteq> hidden_dim cfg"
    and x: "shape x = [batch, channels, fst (image_size cfg), snd (image_size cfg)]"
  shows "\<exists>net. spec_MixerNetwork_init nn_renamed globals_renamed cfg channels v = Inr net
           \<and> spec_MixerNetwork_forward net x = Inl ShapeError"
proof -
  let ?S = "(fst (image_size cfg) div patch_size cfg) * (snd (image_size cfg) div patch_size cfg)"
  let ?mk = "\<lambda>k. spec_MixerLayer_init (hidden_dim cfg) (hidden_dim cfg) (token_hidden cfg)
                 (channel_hidden cfg) (block_values v k)"
  obtain pe where pe: "spec_PatchEmbedding_init channels (fst (image_size cfg), snd (image_size cfg))
      (patch_size cfg) (hidden_dim cfg) (embed_weight v) (embed_bias v) = Inr pe"
    using P by (simp add: spec_PatchEmbedding_init_def)
  define net where "net = \<lparr>patch_embedding = pe,
          mixer_layers = map ?mk [0..<num_blocks cfg],
          classifier = Linear_init (hidden_dim cfg) (num_classes cfg)
              (head_weight v) (head_bias v)\<rparr>"
  have init: "spec_MixerNetwork_init nn_renamed globals_renamed cfg channels v = Inr net"
    using pe by (simp add: spec_MixerNetwork_init_def net_def build_layers_renamed)
  from spec_PatchEmbedding_forward_shape [OF pe x]
  obtain t1 where t1: "spec_PatchEmbedding_forward pe x = Inr t1"
    "shape t1 = [batch, ?S, hidden_dim cfg]" by auto
  have first: "MixerLayer_forward (?mk 0) t1 = Inl ShapeError"
    using t1(2) ne by (rule MixerLayer_forward_mismatch)
  have "mixer_layers net = ?mk 0 # map ?mk [1..<num_blocks cfg]"
    using upt_first [OF n] by (simp add: net_def)
  then have "run_layers (mixer_layers net) t1 = Inl ShapeError"
    using first by simp
  then have "spec_MixerNetwork_forward net x = Inl ShapeError"
    using t1 by (simp add: spec_MixerNetwork_forward_def net_def)
  with init show ?thesis by blast
qed

section \<open>Claims about the MLP block\<close>

text \<open>
  C3. For every input tensor whose last axis has size \<open>dim_in\<close>, the forward pass of the
  MLP block built for \<open>dim_in\<close> and \<open>hidden\<close> returns a tensor of exactly the input's
  shape, namely the second linear layer (\<open>hidden\<close> to \<open>dim_in\<close>) applied to the
  elementwise GELU of the first linear layer (\<open>dim_in\<close> to \<open>hidden\<close>) applied to the
  input.
\<close>

theorem MLPblock_forward_shape:
  assumes "shape x \<noteq> []" and "last (shape x) = dim_in"
  shows "\<exists>y. MLPblock_forward (MLPblock_init dim_in hidden p) x = Inr y
           \<and> shape y = shape x
           \<and> wf_tensor y
           \<and> y = Linear_apply (Linear_init hidden dim_in (fc2_weight p) (fc2_bias p))
                   (GELU_apply
                     (Linear_apply (Linear_init dim_in hidden (fc1_weight p) (fc1_bias p)) x))
           \<and> in_features (Linear_init dim_in hidden (fc1_weight p) (fc1_bias p)) = dim_in
           \<and> out_features (Linear_init dim_in hidden (fc1_weight p) (fc1_bias p)) = hidden
           \<and> in_features (Linear_init hidden dim_in (fc2_weight p) (fc2_bias p)) = hidden
           \<and> out_features (Linear_init hidden dim_in (fc2_weight p) (fc2_bias p)) = dim_in"
proof -
  have "butlast (shape x) @ [dim_in] = shape x"
    using assms by (metis append_butlast_last_id)
  then show ?thesis
    using assms by (simp add: MLPblock_forward_init Linear_init_def)
qed

theorem MLPblock_forward_shape_witness:
  "shape \<lparr>shape = [2, 3], data = [1, 2, 3, 4, 5, 6]\<rparr> \<noteq> []
   \<and> last (shape \<lparr>shape = [2, 3], data = [1, 2, 3, 4, 5, 6]\<rparr>) = 3
   \<and> (\<exists>y. MLPblock_forward
             (MLPblock_init 3 4 \<lparr>fc1_weight = \<lambda>j i. 1, fc1_bias = \<lambda>j. 0,
                                 fc2_weight = \<lambda>j i. 1, fc2_bias = \<lambda>j. 0\<rparr>)
             \<lparr>shape = [2, 3], data = [1, 2, 3, 4, 5, 6]\<rparr> = Inr y
          \<and> shape y = [2, 3] \<and> wf_tensor y)"
  using MLPblock_forward_shape [of "\<lparr>shape = [2, 3], data = [1, 2, 3, 4, 5, 6]\<rparr>" 3 4
      "\<lparr>fc1_weight = \<lambda>j i. 1, fc1_bias = \<lambda>j. 0, fc2_weight = \<lambda>j i. 1, fc2_bias = \<lambda>j. 0\<rparr>"]
  by simp

section \<open>Claims about transposition and construction\<close>

text \<open>
  C10. Swapping axes 1 and 2 of a tensor with three axes is an involution: for every
  tensor \<open>t\<close> of shape \<open>(b, s, c)\<close> the transposition succeeds with a tensor of shape
  \<open>(b, c, s)\<close>, and transposing that returns \<open>t\<close> itself. This is what restores the
  output of the token-mixing block to the layout of the input before the residual sum.
\<close>

theorem transpose12_involution:
  assumes "wf_tensor t" and "shape t = [b, s, c]"
  shows "\<exists>u. transpose12 t = Inr u \<and> shape u = [b, c, s] \<and> transpose12 u = Inr t"
  using transpose12_twice [OF assms] by auto

theorem transpose12_involution_witness:
  "wf_tensor \<lparr>shape = [1, 2, 3], data = [1, 2, 3, 4, 5, 6]\<rparr>
   \<and> transpose12 \<lparr>shape = [1, 2, 3], data = [1, 2, 3, 4, 5, 6]\<rparr>
       = Inr \<lparr>shape = [1, 3, 2], data = [1, 4, 2, 5, 3, 6]\<rparr>
   \<and> transpose12 \<lparr>shape = [1, 3, 2], data = [1, 4, 2, 5, 3, 6]\<rparr>
       = Inr \<lparr>shape = [1, 2, 3], data = [1, 2, 3, 4, 5, 6]\<rparr>"
proof -
  let ?t = "\<lparr>shape = [1, 2, 3], data = [1, 2, 3, 4, 5, 6]\<rparr>"
  have wf: "wf_tensor ?t" by (simp add: wf_tensor_def)
  have ev: "transpose12 ?t = Inr \<lparr>shape = [1, 3, 2], data = [1, 4, 2, 5, 3, 6]\<rparr>"
    by (simp add: transpose12_def swap12_def block_def upt_rec)
  from transpose12_involution [OF wf, of 1 2 3]
  obtain u where "transpose12 ?t = Inr u" and "transpose12 u = Inr ?t" by auto
  with ev wf show ?thesis by simp
qed

text \<open>
  C2. Constructing a Mixer layer fails for every argument tuple: in the library's
  namespace the attribute \<^verbatim>\<open>LinearNorm\<close> does not exist, so the first statement of the
  constructor raises; and whatever \<^verbatim>\<open>nn\<close> holds, the global name \<^verbatim>\<open>MLPBlock\<close> is not bound
  (the notebook defines \<^verbatim>\<open>MLPblock\<close>), so the second statement raises. The class statement
  of the network ends inside an open parenthesis, so the class cannot be instantiated.
\<close>

theorem MixerLayer_init_fails:
  "MixerLayer_init torch_nn notebook_globals patches_num dim_hidden dim_tokens dim_channels v
     = Inl (AttributeError ''LinearNorm'')
   \<and> torch_nn ''LinearNorm'' = None
   \<and> MixerLayer_init nn_renamed notebook_globals patches_num dim_hidden dim_tokens dim_channels v
     = Inl (NameError ''MLPBlock'')
   \<and> notebook_globals ''MLPBlock'' = None
   \<and> notebook_globals ''MLPblock'' = Some MLPblock_class
   \<and> (\<forall>nn. \<exists>e. MixerLayer_init nn notebook_globals patches_num dim_hidden dim_tokens
                  dim_channels v = Inl e)
   \<and> MLP_Mixer_new args = Inl SyntaxError"
proof -
  have g: "global_name notebook_globals ''MLPBlock'' = Inl (NameError ''MLPBlock'')"
    by (simp add: global_name_def notebook_globals_def)
  have a: "getattr torch_nn ''LinearNorm'' = Inl (AttributeError ''LinearNorm'')"
    by (simp add: getattr_def torch_nn_def)
  have r: "getattr nn_renamed ''LinearNorm'' = Inr LayerNorm_class"
    by (simp add: getattr_def nn_renamed_def)
  have 1: "MixerLayer_init torch_nn notebook_globals patches_num dim_hidden dim_tokens
             dim_channels v = Inl (AttributeError ''LinearNorm'')"
    by (simp add: MixerLayer_init_def a)
  have 2: "MixerLayer_init nn_renamed notebook_globals patches_num dim_hidden dim_tokens
             dim_channels v = Inl (NameError ''MLPBlock'')"
    by (simp add: MixerLayer_init_def r g)
  have 3: "\<exists>e. MixerLayer_init nn notebook_globals patches_num dim_hidden dim_tokens
                  dim_channels v = Inl e" for nn
    by (simp add: MixerLayer_init_def g bindE_def split: sum.splits)
  have 4: "MLP_Mixer_new args = Inl SyntaxError"
    by (simp add: MLP_Mixer_new_def class_statement_def MLP_Mixer_source_def open_parens_def)
  have 5: "torch_nn ''LinearNorm'' = None" "notebook_globals ''MLPBlock'' = None"
    "notebook_globals ''MLPblock'' = Some MLPblock_class"
    by (simp_all add: torch_nn_def notebook_globals_def)
  show ?thesis using 1 2 3 4 5 by blast
qed

theorem MixerLayer_init_fails_witness:
  "MixerLayer_init torch_nn notebook_globals 16 128 256 512 (zero_Mixer_values (\<lambda>j. 1))
     = Inl (AttributeError ''LinearNorm'')
   \<and> MixerLayer_init nn_renamed notebook_globals 16 128 256 512 (zero_Mixer_values (\<lambda>j. 1))
     = Inl (NameError ''MLPBlock'')
   \<and> MLP_Mixer_new [10, 2, 16] = Inl SyntaxError"
  using MixerLayer_init_fails [of 16 128 256 512 "zero_Mixer_values (\<lambda>j. 1)" "[10, 2, 16]"]
  by simp

section \<open>Claims about the forward pass of the Mixer layer\<close>

text \<open>
  The forward pass is studied on the layers the constructor builds once its two names
  resolve (\<open>MixerLayer_init_renamed\<close>): such a layer is the one the spec would build for
  \<open>S = C = dim_hidden\<close>, since \<open>patches_num\<close> is never used. On an input of shape
  \<open>(b, S, C)\<close> with \<open>S = dim_hidden = C\<close> every step succeeds and the shape is kept
  (\<open>MixerLayer_forward_shape\<close>); with \<open>S \<noteq> dim_hidden\<close> the token-mixing block raises
  (\<open>MixerLayer_forward_mismatch\<close>).
\<close>

text \<open>
  C1. The claim has the forward pass return \<open>x1 + channel_out\<close>. As written, the
  constructor raises and no forward pass runs. With the two names resolved, the code
  returns \<open>x + channel_out\<close>: for the layer with \<open>patches_num = dim_hidden = 2\<close> whose
  token-mixing block outputs its bias and the zero input of shape \<open>(1, 2, 2)\<close>, the
  token branch gives \<open>[1, 1, 2, 2]\<close>, so \<open>x1 = [1, 1, 2, 2]\<close>, the channel-mixing block
  gives zero, \<open>x1 + channel_out\<close> is \<open>[1, 1, 2, 2]\<close>, and the forward pass returns zero.
\<close>

theorem second_residual_adds_input:
  "MixerLayer_init torch_nn notebook_globals 2 2 1 1 token_bias_values
     = Inl (AttributeError ''LinearNorm'')
   \<and> (\<exists>L. MixerLayer_init nn_renamed globals_renamed 2 2 1 1 token_bias_values = Inr L
     \<and> token_out_restored L (zeros [1, 2, 2]) = Inr \<lparr>shape = [1, 2, 2], data = [1, 1, 2, 2]\<rparr>
     \<and> tensor_add (zeros [1, 2, 2]) \<lparr>shape = [1, 2, 2], data = [1, 1, 2, 2]\<rparr>
         = Inr \<lparr>shape = [1, 2, 2], data = [1, 1, 2, 2]\<rparr>
     \<and> channel_out L (zeros [1, 2, 2]) \<lparr>shape = [1, 2, 2], data = [1, 1, 2, 2]\<rparr>
         = Inr \<lparr>shape = [1, 2, 2], data = [0, 0, 0, 0]\<rparr>
     \<and> tensor_add \<lparr>shape = [1, 2, 2], data = [1, 1, 2, 2]\<rparr>
           \<lparr>shape = [1, 2, 2], data = [0, 0, 0, 0]\<rparr>
         = Inr \<lparr>shape = [1, 2, 2], data = [1, 1, 2, 2]\<rparr>
     \<and> MixerLayer_forward L (zeros [1, 2, 2]) = Inr \<lparr>shape = [1, 2, 2], data = [0, 0, 0, 0]\<rparr>)"
proof -
  have "tensor_add (zeros [1, 2, 2]) \<lparr>shape = [1, 2, 2], data = [1, 1, 2, 2]\<rparr>
         = Inr \<lparr>shape = [1, 2, 2], data = [1, 1, 2, 2]\<rparr>"
    by (simp add: layer_eval)
  moreover have "tensor_add \<lparr>shape = [1, 2, 2], data = [1, 1, 2, 2]\<rparr>
           \<lparr>shape = [1, 2, 2], data = [0, 0, 0, 0]\<rparr>
         = Inr \<lparr>shape = [1, 2, 2], data = [1, 1, 2, 2]\<rparr>"
    by (simp add: layer_eval)
  ultimately show ?thesis
    using MixerLayer_init_renamed [of 2 2 1 1 token_bias_values]
      MixerLayer_init_as_written [of 2 2 1 1 token_bias_values]
      token_bias_token_out token_bias_channel_out token_bias_forward
    by simp
qed

text \<open>
  C4. The claim has the forward pass keep the shape for every configuration. As
  written, the constructor raises and no forward pass runs. With the two names resolved,
  the layer built for \<open>patches_num = 2\<close>, \<open>dim_hidden = 3\<close> raises on an input of shape
  \<open>(1, 2, 3)\<close>: its token-mixing block was built for \<open>dim_hidden\<close> inputs and meets a last
  axis of size \<open>patches_num\<close>.
\<close>

theorem forward_raises_when_patches_differ:
  "MixerLayer_init torch_nn notebook_globals 2 3 4 5 (zero_Mixer_values (\<lambda>j. 1))
     = Inl (AttributeError ''LinearNorm'')
   \<and> (\<exists>L. MixerLayer_init nn_renamed globals_renamed 2 3 4 5 (zero_Mixer_values (\<lambda>j. 1)) = Inr L
     \<and> MixerLayer_forward L (zeros [1, 2, 3]) = Inl ShapeError)"
proof -
  have "shape (zeros [1, 2, 3]) = [1, 2, 3]" by (simp add: zeros_def)
  then have "MixerLayer_forward (spec_MixerLayer_init 3 3 4 5 (zero_Mixer_values (\<lambda>j. 1)))
               (zeros [1, 2, 3]) = Inl ShapeError"
    by (rule MixerLayer_forward_mismatch) simp
  then show ?thesis
    using MixerLayer_init_renamed [of 2 3 4 5 "zero_Mixer_values (\<lambda>j. 1)"]
      MixerLayer_init_as_written [of 2 3 4 5 "zero_Mixer_values (\<lambda>j. 1)"]
    by simp
qed

text \<open>
  C5. The claim has the token-mixing block work along the token axis (\<open>dim_in = S\<close>) and
  the later steps follow. As written, the constructor raises and no forward pass runs.
  With the two names resolved, in the layer built for \<open>patches_num = 1\<close>, \<open>dim_hidden = 2\<close> the
  token-mixing block is the MLP block for \<open>dim_in = 2\<close>; on an input of shape \<open>(2, 1, 2)\<close>
  the normalisation and the transposition succeed, the block raises on the transposed
  tensor of shape \<open>(2, 2, 1)\<close>, and no later step runs.
\<close>

theorem token_block_built_for_channels:
  "MixerLayer_init torch_nn notebook_globals 1 2 3 4 (zero_Mixer_values (\<lambda>j. 1))
     = Inl (AttributeError ''LinearNorm'')
   \<and> (\<exists>L. MixerLayer_init nn_renamed globals_renamed 1 2 3 4 (zero_Mixer_values (\<lambda>j. 1)) = Inr L
     \<and> token_mix L = MLPblock_module (MLPblock_init 2 3 zero_mlp)
     \<and> module_forward (token_ln L) (zeros [2, 1, 2]) = Inr (zeros [2, 1, 2])
     \<and> transpose12 (zeros [2, 1, 2]) = Inr (zeros [2, 2, 1])
     \<and> module_forward (token_mix L) (zeros [2, 2, 1]) = Inl ShapeError
     \<and> token_out_restored L (zeros [2, 1, 2]) = Inl ShapeError)"
proof -
  let ?L = "spec_MixerLayer_init 2 2 3 4 (zero_Mixer_values (\<lambda>j. 1))"
  have "token_mix ?L = MLPblock_module (MLPblock_init 2 3 zero_mlp)"
    by (simp add: spec_MixerLayer_init_def zero_Mixer_values_def zero_values_def)
  moreover have "module_forward (token_ln ?L) (zeros [2, 1, 2]) = Inr (zeros [2, 1, 2])"
    by (simp add: layer_eval norm_eval)
  moreover have "transpose12 (zeros [2, 1, 2]) = Inr (zeros [2, 2, 1])"
    by (simp add: layer_eval)
  moreover have "module_forward (token_mix ?L) (zeros [2, 2, 1]) = Inl ShapeError"
    by (simp add: layer_eval)
  moreover have "token_out_restored ?L (zeros [2, 1, 2]) = Inl ShapeError"
    by (simp add: token_out_restored_def layer_eval norm_eval)
  ultimately show ?thesis
    using MixerLayer_init_renamed [of 1 2 3 4 "zero_Mixer_values (\<lambda>j. 1)"]
      MixerLayer_init_as_written [of 1 2 3 4 "zero_Mixer_values (\<lambda>j. 1)"]
    by simp
qed

text \<open>
  C6, as stated, fails: with a token-mixing block that outputs zero and a channel-mixing
  block that outputs its bias 1, \<open>channel_out\<close> is non-zero and yet the output is the same
  whether the second residual adds to \<open>x\<close> (the code) or to \<open>x1\<close> (the spec).
\<close>

theorem channel_out_nonzero_outputs_equal:
  "MixerLayer_init nn_renamed globals_renamed 2 2 1 1 channel_bias_values
     = Inr (spec_MixerLayer_init 2 2 1 1 channel_bias_values)
   \<and> token_out_restored (spec_MixerLayer_init 2 2 1 1 channel_bias_values) (zeros [1, 2, 2])
     = Inr \<lparr>shape = [1, 2, 2], data = [0, 0, 0, 0]\<rparr>
   \<and> channel_out (spec_MixerLayer_init 2 2 1 1 channel_bias_values) (zeros [1, 2, 2])
       \<lparr>shape = [1, 2, 2], data = [0, 0, 0, 0]\<rparr>
     = Inr \<lparr>shape = [1, 2, 2], data = [1, 1, 1, 1]\<rparr>
   \<and> MixerLayer_forward (spec_MixerLayer_init 2 2 1 1 channel_bias_values) (zeros [1, 2, 2])
     = Inr \<lparr>shape = [1, 2, 2], data = [1, 1, 1, 1]\<rparr>
   \<and> spec_MixerLayer_forward (spec_MixerLayer_init 2 2 1 1 channel_bias_values) (zeros [1, 2, 2])
     = Inr \<lparr>shape = [1, 2, 2], data = [1, 1, 1, 1]\<rparr>"
proof -
  let ?L = "spec_MixerLayer_init 2 2 1 1 channel_bias_values"
  have "token_out_restored ?L (zeros [1, 2, 2]) = Inr \<lparr>shape = [1, 2, 2], data = [0, 0, 0, 0]\<rparr>"
    by (simp add: token_out_restored_def channel_bias_values_def layer_eval norm_eval)
  moreover have "channel_out ?L (zeros [1, 2, 2]) \<lparr>shape = [1, 2, 2], data = [0, 0, 0, 0]\<rparr>
     = Inr \<lparr>shape = [1, 2, 2], data = [1, 1, 1, 1]\<rparr>"
    by (simp add: channel_out_def channel_bias_values_def layer_eval norm_eval)
  moreover have "MixerLayer_forward ?L (zeros [1, 2, 2])
     = Inr \<lparr>shape = [1, 2, 2], data = [1, 1, 1, 1]\<rparr>"
    by (simp add: MixerLayer_forward_def channel_bias_values_def layer_eval norm_eval)
  moreover have "spec_MixerLayer_forward ?L (zeros [1, 2, 2])
     = Inr \<lparr>shape = [1, 2, 2], data = [1, 1, 1, 1]\<rparr>"
    by (simp add: spec_MixerLayer_forward_def channel_bias_values_def layer_eval norm_eval)
  ultimately show ?thesis
    using MixerLayer_init_renamed [of 2 2 1 1 channel_bias_values] by simp
qed

text \<open>
  C6, amended. On a well-formed input on which both variants succeed, the output with
  \<open>x1\<close> as the operand of the second residual can differ from the output with \<open>x\<close> only
  if \<open>token_out_restored\<close> has a non-zero entry: when it is zero the two outputs are the
  same, whether \<open>channel_out\<close> is zero or not. And the output of the code's forward pass
  depends on \<open>token_out_restored\<close>: the two layers built from \<open>gated_values 0\<close> and
  \<open>gated_values 1\<close> differ in the token-mixing block only, their values of
  \<open>token_out_restored\<close> on the zero input of shape \<open>(1, 2, 2)\<close> differ, and so do their
  outputs.
\<close>

theorem residual_operand_needs_token_out:
  "(\<forall>L x r y y'.
      wf_tensor x \<and> token_out_restored L x = Inr r \<and> MixerLayer_forward L x = Inr y
        \<and> spec_MixerLayer_forward L x = Inr y' \<and> y \<noteq> y'
      \<longrightarrow> (\<exists>v\<in>set (data r). v \<noteq> 0))
   \<and> token_ln_values (gated_values 0) = token_ln_values (gated_values 1)
   \<and> channel_ln_values (gated_values 0) = channel_ln_values (gated_values 1)
   \<and> channel_mix_values (gated_values 0) = channel_mix_values (gated_values 1)
   \<and> (\<exists>L0 L1 r0 r1 y0 y1.
        MixerLayer_init nn_renamed globals_renamed 2 2 1 1 (gated_values 0) = Inr L0
      \<and> MixerLayer_init nn_renamed globals_renamed 2 2 1 1 (gated_values 1) = Inr L1
      \<and> token_out_restored L0 (zeros [1, 2, 2]) = Inr r0
      \<and> token_out_restored L1 (zeros [1, 2, 2]) = Inr r1
      \<and> r0 \<noteq> r1
      \<and> MixerLayer_forward L0 (zeros [1, 2, 2]) = Inr y0
      \<and> MixerLayer_forward L1 (zeros [1, 2, 2]) = Inr y1
      \<and> y0 \<noteq> y1)"
proof -
  have a: "\<forall>L x r y y'.
      wf_tensor x \<and> token_out_restored L x = Inr r \<and> MixerLayer_forward L x = Inr y
        \<and> spec_MixerLayer_forward L x = Inr y' \<and> y \<noteq> y'
      \<longrightarrow> (\<exists>v\<in>set (data r). v \<noteq> 0)"
    using residual_operand_zero_token_out by blast
  have b: "token_ln_values (gated_values 0) = token_ln_values (gated_values 1)"
    "channel_ln_values (gated_values 0) = channel_ln_values (gated_values 1)"
    "channel_mix_values (gated_values 0) = channel_mix_values (gated_values 1)"
    by (simp_all add: gated_values_def)
  let ?L0 = "spec_MixerLayer_init 2 2 1 1 (gated_values 0)"
  let ?L1 = "spec_MixerLayer_init 2 2 1 1 (gated_values 1)"
  have "0 < GELU 1" by (rule GELU_pos) simp_all
  then have "\<exists>r0 r1. token_out_restored ?L0 (zeros [1, 2, 2]) = Inr r0
      \<and> token_out_restored ?L1 (zeros [1, 2, 2]) = Inr r1 \<and> r0 \<noteq> r1"
    unfolding gated_token_out by simp
  moreover have "\<exists>y0 y1. MixerLayer_forward ?L0 (zeros [1, 2, 2]) = Inr y0
      \<and> MixerLayer_forward ?L1 (zeros [1, 2, 2]) = Inr y1 \<and> y0 \<noteq> y1"
    using gated_runs_differ unfolding gated_forward by blast
  ultimately have c: "\<exists>L0 L1 r0 r1 y0 y1.
        MixerLayer_init nn_renamed globals_renamed 2 2 1 1 (gated_values 0) = Inr L0
      \<and> MixerLayer_init nn_renamed globals_renamed 2 2 1 1 (gated_values 1) = Inr L1
      \<and> token_out_restored L0 (zeros [1, 2, 2]) = Inr r0
      \<and> token_out_restored L1 (zeros [1, 2, 2]) = Inr r1
      \<and> r0 \<noteq> r1
      \<and> MixerLayer_forward L0 (zeros [1, 2, 2]) = Inr y0
      \<and> MixerLayer_forward L1 (zeros [1, 2, 2]) = Inr y1
      \<and> y0 \<noteq> y1"
    using MixerLayer_init_renamed by blast
  show ?thesis using a b c by blast
qed

theorem residual_operand_needs_token_out_witness:
  "wf_tensor (zeros [1, 2, 2])
   \<and> token_out_restored (spec_MixerLayer_init 2 2 1 1 token_bias_values) (zeros [1, 2, 2])
       = Inr \<lparr>shape = [1, 2, 2], data = [1, 1, 2, 2]\<rparr>
   \<and> MixerLayer_forward (spec_MixerLayer_init 2 2 1 1 token_bias_values) (zeros [1, 2, 2])
       = Inr \<lparr>shape = [1, 2, 2], data = [0, 0, 0, 0]\<rparr>
   \<and> spec_MixerLayer_forward (spec_MixerLayer_init 2 2 1 1 token_bias_values) (zeros [1, 2, 2])
       = Inr \<lparr>shape = [1, 2, 2], data = [1, 1, 2, 2]\<rparr>
   \<and> \<lparr>shape = [1, 2, 2], data = [0, 0, 0, 0]\<rparr> \<noteq> \<lparr>shape = [1, 2, 2], data = [1, 1, 2, 2 :: real]\<rparr>
   \<and> (\<exists>v\<in>set (data \<lparr>shape = [1, 2, 2], data = [1, 1, 2, 2]\<rparr>). v \<noteq> 0)"
proof -
  have wf: "wf_tensor (zeros [1, 2, 2])"
    by (simp add: wf_tensor_def zeros_def)
  have ne: "\<lparr>shape = [1, 2, 2], data = [0, 0, 0, 0]\<rparr>
              \<noteq> \<lparr>shape = [1, 2, 2], data = [1, 1, 2, 2 :: real]\<rparr>"
    by simp
  from residual_operand_needs_token_out
  have "wf_tensor (zeros [1, 2, 2])
      \<and> token_out_restored (spec_MixerLayer_init 2 2 1 1 token_bias_values) (zeros [1, 2, 2])
          = Inr \<lparr>shape = [1, 2, 2], data = [1, 1, 2, 2]\<rparr>
      \<and> MixerLayer_forward (spec_MixerLayer_init 2 2 1 1 token_bias_values) (zeros [1, 2, 2])
          = Inr \<lparr>shape = [1, 2, 2], data = [0, 0, 0, 0]\<rparr>
      \<and> spec_MixerLayer_forward (spec_MixerLayer_init 2 2 1 1 token_bias_values) (zeros [1, 2, 2])
          = Inr \<lparr>shape = [1, 2, 2], data = [1, 1, 2, 2]\<rparr>
      \<and> \<lparr>shape = [1, 2, 2], data = [0, 0, 0, 0]\<rparr> \<noteq> \<lparr>shape = [1, 2, 2], data = [1, 1, 2, 2 :: real]\<rparr>
      \<longrightarrow> (\<exists>v\<in>set (data \<lparr>shape = [1, 2, 2], data = [1, 1, 2, 2]\<rparr>). v \<noteq> 0)"
    by blast
  then show ?thesis
    using wf ne token_bias_token_out token_bias_forward token_bias_spec_forward by blast
qed

section \<open>Claims about the patch embedding and the network of the spec\<close>

text \<open>
  C7. Constructing the patch embedding fails with a \<open>ConfigurationError\<close> when the patch
  size is zero or does not divide the height or the width, in particular for height 33
  and patch size 8, and so does constructing the network; when the patch size divides
  both, construction succeeds and the forward pass maps an input of shape
  \<open>(batch, channels, H, W)\<close> to shape \<open>(batch, (H div P) * (W div P), C)\<close>.
\<close>

theorem spec_PatchEmbedding_contract:
  "(P = 0 \<or> H mod P \<noteq> 0 \<or> W mod P \<noteq> 0 \<longrightarrow>
      spec_PatchEmbedding_init channels (H, W) P C w b = Inl ConfigurationError)
   \<and> spec_PatchEmbedding_init channels (33, W) 8 C w b = Inl ConfigurationError
   \<and> (patch_size cfg = 0 \<or> fst (image_size cfg) mod patch_size cfg \<noteq> 0
        \<or> snd (image_size cfg) mod patch_size cfg \<noteq> 0 \<longrightarrow>
      spec_MixerNetwork_init nn globals cfg channels v = Inl ConfigurationError)
   \<and> (0 < P \<and> H mod P = 0 \<and> W mod P = 0 \<longrightarrow>
        (\<exists>pe. spec_PatchEmbedding_init channels (H, W) P C w b = Inr pe
           \<and> (\<forall>x batch. shape x = [batch, channels, H, W] \<longrightarrow>
                (\<exists>y. spec_PatchEmbedding_forward pe x = Inr y
                   \<and> shape y = [batch, (H div P) * (W div P), C]))))"
proof (intro conjI impI)
  assume "P = 0 \<or> H mod P \<noteq> 0 \<or> W mod P \<noteq> 0"
  then show "spec_PatchEmbedding_init channels (H, W) P C w b = Inl ConfigurationError"
    by (auto simp: spec_PatchEmbedding_init_def)
next
  show "spec_PatchEmbedding_init channels (33, W) 8 C w b = Inl ConfigurationError"
    by (simp add: spec_PatchEmbedding_init_def)
next
  assume "patch_size cfg = 0 \<or> fst (image_size cfg) mod patch_size cfg \<noteq> 0
        \<or> snd (image_size cfg) mod patch_size cfg \<noteq> 0"
  then show "spec_MixerNetwork_init nn globals cfg channels v = Inl ConfigurationError"
    by (auto simp: spec_MixerNetwork_init_def spec_PatchEmbedding_init_def)
next
  assume ok: "0 < P \<and> H mod P = 0 \<and> W mod P = 0"
  then obtain pe where pe: "spec_PatchEmbedding_init channels (H, W) P C w b = Inr pe"
    by (simp add: spec_PatchEmbedding_init_def)
  then show "\<exists>pe. spec_PatchEmbedding_init channels (H, W) P C w b = Inr pe
           \<and> (\<forall>x batch. shape x = [batch, channels, H, W] \<longrightarrow>
                (\<exists>y. spec_PatchEmbedding_forward pe x = Inr y
                   \<and> shape y = [batch, (H div P) * (W div P), C]))"
    using spec_PatchEmbedding_forward_shape [OF pe] by blast
qed

theorem spec_PatchEmbedding_contract_witness:
  "(8::nat) \<noteq> 0 \<and> (32::nat) mod 8 = 0 \<and> (33::nat) mod 8 \<noteq> 0
   \<and> (\<exists>pe y. spec_PatchEmbedding_init 3 (32, 32) 8 64 (\<lambda>j i. 1) (\<lambda>j. 0) = Inr pe
         \<and> spec_PatchEmbedding_forward pe (zeros [2, 3, 32, 32]) = Inr y
         \<and> shape y = [2, 16, 64])
   \<and> spec_PatchEmbedding_init 3 (33, 32) 8 64 (\<lambda>j i. 1) (\<lambda>j. 0) = Inl ConfigurationError
   \<and> spec_MixerNetwork_init torch_nn notebook_globals
        \<lparr>num_classes = 10, num_blocks = 2, patch_size = 8, hidden_dim = 64,
         token_hidden = 32, channel_hidden = 32, image_size = (33, 32)\<rparr>
        3 (zero_network_values (\<lambda>j. 1)) = Inl ConfigurationError"
proof -
  let ?cfg = "\<lparr>num_classes = 10, num_blocks = 2, patch_size = 8, hidden_dim = 64,
         token_hidden = 32, channel_hidden = 32, image_size = (33, 32)\<rparr>"
  have sh: "shape (zeros [2, 3, 32, 32]) = [2, 3, 32, 32]" by (simp add: zeros_def)
  have ok: "0 < (8::nat) \<and> (32::nat) mod 8 = 0 \<and> (32::nat) mod 8 = 0" by simp
  have bad: "(8::nat) = 0 \<or> (33::nat) mod 8 \<noteq> 0 \<or> (32::nat) mod 8 \<noteq> 0" by simp
  have badc: "patch_size ?cfg = 0 \<or> fst (image_size ?cfg) mod patch_size ?cfg \<noteq> 0
        \<or> snd (image_size ?cfg) mod patch_size ?cfg \<noteq> 0" by simp
  note c = spec_PatchEmbedding_contract [where P = 8 and H = 32 and W = 32 and channels = 3
      and C = 64 and w = "\<lambda>j i. 1" and b = "\<lambda>j. 0" and cfg = ?cfg
      and v = "zero_network_values (\<lambda>j. 1)" and nn = torch_nn and globals = notebook_globals]
  note d = spec_PatchEmbedding_contract [where P = 8 and H = 33 and W = 32 and channels = 3
      and C = 64 and w = "\<lambda>j i. 1" and b = "\<lambda>j. 0" and cfg = ?cfg
      and v = "zero_network_values (\<lambda>j. 1)" and nn = torch_nn and globals = notebook_globals]
  from c ok obtain pe where pe: "spec_PatchEmbedding_init 3 (32, 32) 8 64 (\<lambda>j i. 1) (\<lambda>j. 0) = Inr pe"
    and all: "\<forall>x batch. shape x = [batch, 3, 32, 32] \<longrightarrow>
                (\<exists>y. spec_PatchEmbedding_forward pe x = Inr y
                   \<and> shape y = [batch, (32 div 8) * (32 div 8), 64])"
    by blast
  from all sh obtain y where y: "spec_PatchEmbedding_forward pe (zeros [2, 3, 32, 32]) = Inr y"
    "shape y = [2, (32 div 8) * (32 div 8), 64]" by blast
  have e: "spec_PatchEmbedding_init 3 (33, 32) 8 64 (\<lambda>j i. 1) (\<lambda>j. 0) = Inl ConfigurationError"
    using d bad by blast
  have f: "spec_MixerNetwork_init torch_nn notebook_globals ?cfg 3 (zero_network_values (\<lambda>j. 1))
             = Inl ConfigurationError"
    using c badc by blast
  have "\<exists>pe y. spec_PatchEmbedding_init 3 (32, 32) 8 64 (\<lambda>j i. 1) (\<lambda>j. 0) = Inr pe
         \<and> spec_PatchEmbedding_forward pe (zeros [2, 3, 32, 32]) = Inr y
         \<and> shape y = [2, 16, 64]"
    using pe y by auto
  then show ?thesis using e f by simp
qed

text \<open>
  C9. The claim has the network with 10 classes, 2 blocks, patch size 16, hidden
  dimension 128, token hidden 256, channel hidden 512 and image size 64 by 64 map a
  batch of 4 zero images to zero logits when every weight and bias is zero. With the
  source's Mixer layer the network yields no logits, whatever the parameters and the
  number of input channels: as written, constructing its first layer raises; with the
  two names resolved, the network is constructed, the patch embedding gives shape
  \<open>(4, 16, 128)\<close>, and the first layer raises, its token-mixing block being built for
  128 inputs and meeting a token axis of size 16.
\<close>

theorem network_layers_raise:
  "spec_MixerNetwork_init torch_nn notebook_globals
      \<lparr>num_classes = 10, num_blocks = 2, patch_size = 16, hidden_dim = 128,
       token_hidden = 256, channel_hidden = 512, image_size = (64, 64)\<rparr>
      channels v = Inl (AttributeError ''LinearNorm'')
   \<and> (\<exists>net. spec_MixerNetwork_init nn_renamed globals_renamed
            \<lparr>num_classes = 10, num_blocks = 2, patch_size = 16, hidden_dim = 128,
             token_hidden = 256, channel_hidden = 512, image_size = (64, 64)\<rparr>
            channels v = Inr net
         \<and> spec_MixerNetwork_forward net (zeros [4, channels, 64, 64]) = Inl ShapeError)"
proof -
  let ?cfg = "\<lparr>num_classes = 10, num_blocks = 2, patch_size = 16, hidden_dim = 128,
             token_hidden = 256, channel_hidden = 512, image_size = (64, 64)\<rparr>"
  have "spec_MixerNetwork_init torch_nn notebook_globals ?cfg channels v
          = Inl (AttributeError ''LinearNorm'')"
    by (rule spec_MixerNetwork_as_written) simp_all
  moreover have "\<exists>net. spec_MixerNetwork_init nn_renamed globals_renamed ?cfg channels v = Inr net
         \<and> spec_MixerNetwork_forward net (zeros [4, channels, 64, 64]) = Inl ShapeError"
    by (rule spec_MixerNetwork_mismatch) (simp_all add: zeros_def)
  ultimately show ?thesis by blast
qed

theorem network_layers_raise_witness:
  "spec_MixerNetwork_init torch_nn notebook_globals
      \<lparr>num_classes = 10, num_blocks = 2, patch_size = 16, hidden_dim = 128,
       token_hidden = 256, channel_hidden = 512, image_size = (64, 64)\<rparr>
      3 (zero_network_values (\<lambda>j. 1)) = Inl (AttributeError ''LinearNorm'')
   \<and> (\<exists>net. spec_MixerNetwork_init nn_renamed globals_renamed
            \<lparr>num_classes = 10, num_blocks = 2, patch_size = 16, hidden_dim = 128,
             token_hidden = 256, channel_hidden = 512, image_size = (64, 64)\<rparr>
            3 (zero_network_values (\<lambda>j. 1)) = Inr net
         \<and> spec_MixerNetwork_forward net (zeros [4, 3, 64, 64]) = Inl ShapeError)"
  using network_layers_raise [of 3 "zero_network_values (\<lambda>j. 1)"] by simp

end
